theory Spec2Isabelle
  imports Main "HOL-Library.Log_Nat"
begin

section \<open>JavaScript numbers\<close>

text \<open>
  A JavaScript \<open>Number\<close> is an IEEE 754 binary64 value. The scores of this program are
  finite and far from the overflow threshold, so a number is modelled by the rational it
  denotes, and every arithmetic operation rounds its exact result to the nearest binary64
  value, ties to even: \<open>binade x\<close> is the exponent \<open>e\<close> with \<open>2^e \<le> |x| < 2^(e+1)\<close>, the
  spacing of binary64 values there is \<open>2^(e - 52)\<close> (and never below that of the
  subnormal range), and \<open>fl64\<close> rounds to a multiple of that spacing. \<open>NaN\<close> and the
  infinities are outside the model; an absent (\<open>undefined\<close>) value is an \<open>option\<close>.
\<close>

definition rne :: "rat \<Rightarrow> int" where
  "rne y = (let f = \<lfloor>y\<rfloor>; d = y - of_int f in
            if d < 1/2 then f else if 1/2 < d then f + 1 else if even f then f else f + 1)"

definition binade :: "rat \<Rightarrow> int" where
  "binade x = (let (p, q) = quotient_of \<bar>x\<bar>; e0 = bitlen p - bitlen q in
                if 2 powi e0 \<le> \<bar>x\<bar> then e0 else e0 - 1)"

definition fl64 :: "rat \<Rightarrow> rat" where
  "fl64 x = (if x = 0 then 0 else
      let q = 2 powi (max (binade x) (- 1022) - 52) in of_int (rne (x / q)) * q)"

definition dmul :: "rat \<Rightarrow> rat \<Rightarrow> rat" where
  "dmul x y = fl64 (x * y)"

definition dadd :: "rat \<Rightarrow> rat \<Rightarrow> rat" where
  "dadd x y = fl64 (x + y)"

definition ddiv :: "rat \<Rightarrow> rat \<Rightarrow> rat" where
  "ddiv x y = fl64 (x / y)"

text \<open>
  \<open>Math.round\<close> returns the nearest integer and, of two equally near, the one towards
  plus infinity; \<open>Math.min\<close> is the smaller of its two arguments.
\<close>

definition Math_round :: "rat \<Rightarrow> int" where
  "Math_round x = \<lfloor>x + 1/2\<rfloor>"

definition Math_min :: "rat \<Rightarrow> rat \<Rightarrow> rat" where
  "Math_min x y = (if x \<le> y then x else y)"

text \<open>The decimal literals of the weight tables, each read as the nearest binary64 value.\<close>

definition w_035 :: rat where "w_035 = fl64 (35/100)"
definition w_025 :: rat where "w_025 = fl64 (25/100)"
definition w_015 :: rat where "w_015 = fl64 (15/100)"
definition w_010 :: rat where "w_010 = fl64 (10/100)"

text \<open>
  The rounding the specification names: to the nearest integer, a tie going away from
  zero.
\<close>

definition spec_round :: "rat \<Rightarrow> int" where
  "spec_round x = (if 0 \<le> x then \<lfloor>x + 1/2\<rfloor> else \<lceil>x - 1/2\<rceil>)"

text \<open>
  A value is near a tie when it lies within \<open>2^-40\<close> of the midpoint between two
  neighbouring integers.
\<close>

definition near_tie :: "rat \<Rightarrow> bool" where
  "near_tie x = (\<bar>x - (of_int \<lfloor>x\<rfloor> + 1/2)\<bar> \<le> 1 / 2 ^ 40)"

section \<open>JavaScript strings and the regular expressions of the scorers\<close>

text \<open>
  A string is the list of its code units, for text whose code units are below 256 (ASCII
  and Latin-1). \<open>toLowerCase\<close> lowers the letters of that range and \<open>is_space\<close> is the
  class \<open>\s\<close> there.
\<close>

definition toLowerCase_char :: "char \<Rightarrow> char" where
  "toLowerCase_char c =
     (let n = (of_char c :: nat) in
      if (65 \<le> n \<and> n \<le> 90) \<or> (192 \<le> n \<and> n \<le> 222 \<and> n \<noteq> 215)
      then char_of (n + 32) else c)"

definition toLowerCase :: "string \<Rightarrow> string" where
  "toLowerCase s = map toLowerCase_char s"

definition is_digit :: "char \<Rightarrow> bool" where
  "is_digit c = (let n = (of_char c :: nat) in 48 \<le> n \<and> n \<le> 57)"

definition is_space :: "char \<Rightarrow> bool" where
  "is_space c = (let n = (of_char c :: nat) in (9 \<le> n \<and> n \<le> 13) \<or> n = 32 \<or> n = 160)"

fun startsWith :: "string \<Rightarrow> string \<Rightarrow> bool" where
  "startsWith s [] = True"
| "startsWith [] (p # ps) = False"
| "startsWith (c # cs) (p # ps) = (c = p \<and> startsWith cs ps)"

text \<open>\<open>s.includes(p)\<close>: \<open>p\<close> occurs in \<open>s\<close> as a contiguous substring.\<close>

fun str_includes :: "string \<Rightarrow> string \<Rightarrow> bool" where
  "str_includes [] p = (p = [])"
| "str_includes (c # cs) p = (startsWith (c # cs) p \<or> str_includes cs p)"

text \<open>
  The regular expressions of the scorers are alternatives of sequences of two kinds of
  atom: a literal, and \<open>\d+\<close>. All carry the flag \<open>i\<close>, and all their literals are
  written in lower case, so \<open>regex_test\<close> lowers the text once and searches it for a
  position where one alternative matches.
\<close>

datatype atom = Lit string | Digits

fun match_seq :: "atom list \<Rightarrow> string \<Rightarrow> bool"
  and match_digits :: "atom list \<Rightarrow> string \<Rightarrow> bool" where
  "match_seq [] s = True"
| "match_seq (Lit l # as) s = (startsWith s l \<and> match_seq as (drop (length l) s))"
| "match_seq (Digits # as) s = match_digits as s"
| "match_digits as [] = False"
| "match_digits as (c # cs) = (is_digit c \<and> (match_seq as cs \<or> match_digits as cs))"

definition match_any :: "atom list list \<Rightarrow> string \<Rightarrow> bool" where
  "match_any alts s = list_ex (\<lambda>a. match_seq a s) alts"

fun search :: "atom list list \<Rightarrow> string \<Rightarrow> bool" where
  "search alts [] = match_any alts []"
| "search alts (c # cs) = (match_any alts (c # cs) \<or> search alts cs)"

definition regex_test :: "atom list list \<Rightarrow> string \<Rightarrow> bool" where
  "regex_test alts s = search alts (toLowerCase s)"

text \<open>An alternative that is one literal, the common case.\<close>

definition lits :: "string list \<Rightarrow> atom list list" where
  "lits ls = map (\<lambda>l. [Lit l]) ls"

text \<open>
  \<open>s.split(/\s+/).length\<close>: one more than the number of maximal runs of white space
  (the empty string splits into one empty piece).
\<close>

fun count_runs :: "bool \<Rightarrow> string \<Rightarrow> nat" where
  "count_runs prev [] = 0"
| "count_runs prev (c # cs) =
     (if is_space c then (if prev then 0 else 1) + count_runs True cs
      else count_runs False cs)"

definition split_ws_length :: "string \<Rightarrow> nat" where
  "split_ws_length s = 1 + count_runs False s"

text \<open>
  \<open>xs.join(sep)\<close> on an array of strings, \<open>s.trim()\<close>, which removes the white space at
  both ends, and the test \<open>!s.trim()\<close>.
\<close>

fun join :: "string \<Rightarrow> string list \<Rightarrow> string" where
  "join sep [] = []"
| "join sep [x] = x"
| "join sep (x # y # ys) = x @ sep @ join sep (y # ys)"


definition trim_is_empty :: "string \<Rightarrow> bool" where
  "trim_is_empty s = list_all is_space s"

section \<open>The r\'esum\'e scorers (routes/cv.js)\<close>

record kw_facts =
  kw_found :: "string list"
  kw_missing :: "string list"
  kw_score :: rat

record fmt_facts =
  hasProperSections :: bool
  hasContactInfo :: bool
  hasSkillsSection :: bool
  hasExperienceSection :: bool
  fmt_score :: rat

record content_facts =
  hasQuantifiableAchievements :: bool
  hasRelevantExperience :: bool
  hasEducationSection :: bool
  wordCount :: nat
  content_score :: rat

record tech_facts =
  programmingLanguages :: "string list"
  frameworks :: "string list"
  tools :: "string list"
  databases :: "string list"
  tech_score :: rat

text \<open>
  The \<open>analysis\<close> object of a stored document. A category that has not been written yet
  is \<open>None\<close>: reading its \<open>score\<close> then gives \<open>undefined\<close>.
\<close>

record cv_analysis =
  an_keywords :: "kw_facts option"
  an_formatting :: "fmt_facts option"
  an_content :: "content_facts option"
  an_technical :: "tech_facts option"

definition commonTechKeywords :: "string list" where
  "commonTechKeywords =
    [''javascript'', ''python'', ''java'', ''react'', ''node.js'', ''angular'', ''vue'',
     ''typescript'', ''html'', ''css'', ''sql'', ''mongodb'', ''postgresql'', ''mysql'',
     ''aws'', ''docker'', ''kubernetes'', ''git'', ''agile'', ''scrum'', ''rest'', ''api'',
     ''microservices'', ''cloud'', ''devops'', ''ci/cd'', ''testing'', ''unit testing'',
     ''integration testing'', ''tdd'', ''bdd'', ''redux'', ''express'', ''spring'',
     ''django'', ''flask'', ''laravel'', ''php'', ''c++'', ''c#'', ''.net'', ''ruby'',
     ''rails'', ''go'', ''rust'', ''scala'', ''kotlin'', ''swift'', ''ios'', ''android'',
     ''mobile'', ''responsive'', ''bootstrap'', ''tailwind'', ''sass'', ''less'',
     ''webpack'', ''babel'', ''npm'', ''yarn'', ''jenkins'', ''github'', ''gitlab'',
     ''jira'', ''confluence'', ''slack'', ''team collaboration'', ''leadership'',
     ''problem solving'', ''debugging'', ''optimization'', ''performance'',
     ''security'', ''authentication'', ''authorization'', ''oauth'', ''jwt'']"

definition analyzeKeywords :: "string \<Rightarrow> kw_facts" where
  "analyzeKeywords text =
     (let textLower = toLowerCase text;
          found = filter (\<lambda>keyword. str_includes textLower (toLowerCase keyword)) commonTechKeywords;
          missing = take 10
            (filter (\<lambda>keyword. \<not> str_includes textLower (toLowerCase keyword)) commonTechKeywords);
          score = Math_min 100 (dmul (ddiv (of_nat (length found)) 20) 100)
      in \<lparr>kw_found = found, kw_missing = missing, kw_score = score\<rparr>)"

definition analyzeFormatting :: "string \<Rightarrow> fmt_facts" where
  "analyzeFormatting text =
     (let contact = regex_test (lits [''email'', ''phone'', ''linkedin'', ''github'']) text;
          skills = regex_test (lits [''skills'', ''technologies'', ''technical'']) text;
          experience = regex_test (lits [''experience'', ''work'', ''employment'', ''position'']) text;
          proper = (contact \<and> skills \<and> experience);
          score = (if contact then 25 else 0) + (if skills then 25 else 0)
                + (if experience then 25 else 0) + (if proper then 25 else 0)
      in \<lparr>hasProperSections = proper, hasContactInfo = contact, hasSkillsSection = skills,
          hasExperienceSection = experience, fmt_score = score\<rparr>)"

definition analyzeContent :: "string \<Rightarrow> content_facts" where
  "analyzeContent text =
     (let achievements = regex_test
            ([[Digits, Lit ''%''], [Digits, Lit ''+'']]
             @ lits [''increased'', ''improved'', ''reduced'', ''achieved'']) text;
          relevant = regex_test
            (lits [''developer'', ''engineer'', ''programmer'', ''software'', ''technical'']) text;
          education = regex_test
            (lits [''education'', ''degree'', ''university'', ''college'', ''bachelor'', ''master'']) text;
          wc = split_ws_length text;
          score = (if achievements then 30 else 0) + (if relevant then 30 else 0)
                + (if education then 20 else 0) + (if 300 \<le> wc \<and> wc \<le> 800 then 20 else 0)
      in \<lparr>hasQuantifiableAchievements = achievements, hasRelevantExperience = relevant,
          hasEducationSection = education, wordCount = wc, content_score = score\<rparr>)"

definition analyzeTechnicalSkills :: "string \<Rightarrow> tech_facts" where
  "analyzeTechnicalSkills text =
     (let langs = filter (\<lambda>lang. str_includes (toLowerCase text) lang)
            [''javascript'', ''python'', ''java'', ''typescript'', ''c++'', ''c#'', ''php'',
             ''ruby'', ''go''];
          fws = filter (\<lambda>fw. str_includes (toLowerCase text) fw)
            [''react'', ''angular'', ''vue'', ''node.js'', ''express'', ''django'', ''flask'',
             ''spring'', ''laravel''];
          tls = filter (\<lambda>tool. str_includes (toLowerCase text) tool)
            [''git'', ''docker'', ''kubernetes'', ''aws'', ''jenkins'', ''jira'', ''webpack''];
          dbs = filter (\<lambda>db. str_includes (toLowerCase text) db)
            [''mongodb'', ''postgresql'', ''mysql'', ''redis'', ''elasticsearch''];
          totalSkills = length langs + length fws + length tls + length dbs;
          score = Math_min 100 (dmul (ddiv (of_nat totalSkills) 10) 100)
      in \<lparr>programmingLanguages = langs, frameworks = fws, tools = tls, databases = dbs,
          tech_score = score\<rparr>)"

text \<open>
  The object \<open>performATSAnalysis\<close> returns, and its assignment to the \<open>analysis\<close> of a
  document (\<open>cvAnalysis.analysis = analysis\<close>).
\<close>

record ats_result =
  res_keywords :: kw_facts
  res_formatting :: fmt_facts
  res_content :: content_facts
  res_technical :: tech_facts

definition performATSAnalysis :: "string \<Rightarrow> ats_result" where
  "performATSAnalysis text =
     \<lparr>res_keywords = analyzeKeywords text,
      res_formatting = analyzeFormatting text,
      res_content = analyzeContent text,
      res_technical = analyzeTechnicalSkills text\<rparr>"

definition stored_analysis :: "ats_result \<Rightarrow> cv_analysis" where
  "stored_analysis r =
     \<lparr>an_keywords = Some (res_keywords r), an_formatting = Some (res_formatting r),
      an_content = Some (res_content r), an_technical = Some (res_technical r)\<rparr>"

section \<open>The stored r\'esum\'e analysis (models/CVAnalysis.js)\<close>

record suggestion =
  category :: string
  priority :: string
  title :: string
  description :: string
  impact :: int

record comparison_data =
  beforeScore :: int
  afterScore :: int
  improvements :: "string list"

text \<open>
  A document of the collection. \<open>optimizedVersion\<close> holds \<open>optimizedVersion.text\<close>.
  \<open>locked\<close> is not a path of the schema: the routes set it on the document in memory
  before they answer, it is never stored, and the JSON of a document does not carry
  it. \<open>False\<close> stands for its absence.
\<close>

record cv_doc =
  userId :: nat
  originalFileName :: string
  fileType :: string
  extractedText :: string
  atsScore :: int
  analysis :: cv_analysis
  suggestions :: "suggestion list"
  optimizedVersion :: "string option"
  comparisonData :: "comparison_data option"
  status :: string
  processingTime :: int
  locked :: bool

text \<open>The analysis of a document created by \<open>new CVAnalysis\<close>: nothing written yet.\<close>

definition no_analysis :: cv_analysis where
  "no_analysis = \<lparr>an_keywords = None, an_formatting = None, an_content = None,
                    an_technical = None\<rparr>"

text \<open>The document \<open>POST /analyze\<close> creates before the analysis runs.\<close>

definition new_cv_doc :: "nat \<Rightarrow> string \<Rightarrow> string \<Rightarrow> string \<Rightarrow> cv_doc" where
  "new_cv_doc uidx name ftype text =
     \<lparr>userId = uidx, originalFileName = name, fileType = ftype, extractedText = text,
      atsScore = 0, analysis = no_analysis, suggestions = [], optimizedVersion = None,
      comparisonData = None, status = ''analyzing'', processingTime = 0, locked = False\<rparr>"

text \<open>\<open>x || 0\<close> on a score: an absent score counts as 0.\<close>

definition score_or0 :: "rat option \<Rightarrow> rat" where
  "score_or0 s = (case s of None \<Rightarrow> 0 | Some v \<Rightarrow> v)"

text \<open>The four sub-scores as \<open>calculateATSScore\<close> reads them.\<close>

definition cv_scores :: "cv_analysis \<Rightarrow> rat \<times> rat \<times> rat \<times> rat" where
  "cv_scores an =
     (score_or0 (map_option kw_score (an_keywords an)),
      score_or0 (map_option fmt_score (an_formatting an)),
      score_or0 (map_option content_score (an_content an)),
      score_or0 (map_option tech_score (an_technical an)))"

text \<open>
  The weighted sum as JavaScript evaluates it: four products, added from left to right,
  each operation rounded.
\<close>

definition cv_weighted :: "rat \<Rightarrow> rat \<Rightarrow> rat \<Rightarrow> rat \<Rightarrow> rat" where
  "cv_weighted k f c t =
     dadd (dadd (dadd (dmul k w_035) (dmul f w_025)) (dmul c w_025)) (dmul t w_015)"

text \<open>\<open>calculateATSScore\<close> returns the score and the document with \<open>atsScore\<close> set.\<close>

definition calculateATSScore :: "cv_doc \<Rightarrow> int \<times> cv_doc" where
  "calculateATSScore d =
     (case cv_scores (analysis d) of (k, f, c, t) \<Rightarrow>
        let s = Math_round (cv_weighted k f c t) in (s, d\<lparr>atsScore := s\<rparr>))"

text \<open>The composite score in the words of the specification: exact arithmetic.\<close>

definition exact_cv_sum :: "rat \<Rightarrow> rat \<Rightarrow> rat \<Rightarrow> rat \<Rightarrow> rat" where
  "exact_cv_sum k f c t = (35 * k + 25 * f + 25 * c + 15 * t) / 100"

definition spec_cv_composite :: "rat \<Rightarrow> rat \<Rightarrow> rat \<Rightarrow> rat \<Rightarrow> int" where
  "spec_cv_composite k f c t = spec_round (exact_cv_sum k f c t)"

definition generateSuggestions :: "cv_doc \<Rightarrow> suggestion list \<times> cv_doc" where
  "generateSuggestions d =
     (let an = analysis d;
          s1 = (case an_keywords an of
                  None \<Rightarrow> []
                | Some k \<Rightarrow>
                    if kw_score k < 70
                    then [\<lparr>category = ''keywords'', priority = ''high'',
                           title = ''Add Missing Keywords'',
                           description = ''Include these important keywords: ''
                             @ join '', '' (take 5 (kw_missing k)),
                           impact = 15\<rparr>]
                    else []);
          s2 = (if \<not> (case an_formatting an of None \<Rightarrow> False | Some f \<Rightarrow> hasProperSections f)
                then [\<lparr>category = ''formatting'', priority = ''high'',
                       title = ''Improve CV Structure'',
                       description = ''Add clear sections: Contact Info, Summary, Experience, Skills, Education'',
                       impact = 12\<rparr>]
                else []);
          s3 = (if \<not> (case an_content an of None \<Rightarrow> False
                                          | Some c \<Rightarrow> hasQuantifiableAchievements c)
                then [\<lparr>category = ''content'', priority = ''medium'',
                       title = ''Add Quantifiable Achievements'',
                       description = ''Include numbers, percentages, and measurable results in your experience'',
                       impact = 10\<rparr>]
                else []);
          s4 = (if length (case an_technical an of None \<Rightarrow> [] | Some t \<Rightarrow> programmingLanguages t) < 3
                then [\<lparr>category = ''technical'', priority = ''medium'',
                       title = ''Expand Technical Skills'',
                       description = ''Add more relevant programming languages and frameworks'',
                       impact = 8\<rparr>]
                else []);
          sugg = s1 @ s2 @ s3 @ s4
      in (sugg, d\<lparr>suggestions := sugg\<rparr>))"

section \<open>The LinkedIn scorers (routes/linkedin.js) and the stored analysis\<close>

record experience_item =
  exp_title :: "string option"
  exp_company :: "string option"
  exp_duration :: "string option"
  exp_description :: "string option"

record profile_data =
  headline :: "string option"
  summary :: "string option"
  experience :: "experience_item list option"
  skills :: "string list option"
  connections :: "int option"

record headline_facts =
  hl_hasKeywords :: bool
  isCompelling :: bool
  hl_length :: nat
  hl_score :: rat

record summary_facts =
  hasCallToAction :: bool
  sm_hasKeywords :: bool
  hasAchievements :: bool
  sm_length :: nat
  sm_score :: rat

record experience_facts =
  hasQuantifiableResults :: bool
  hasRelevantKeywords :: bool
  isWellStructured :: bool
  ex_count :: nat
  ex_score :: rat

record skills_facts =
  hasRelevantSkills :: bool
  hasTechnicalSkills :: bool
  sk_count :: nat
  sk_score :: rat

record engagement_facts =
  hasRecentActivity :: bool
  hasRecommendations :: bool
  connectionCount :: int
  en_score :: rat

record li_analysis =
  an_headline :: "headline_facts option"
  an_summary :: "summary_facts option"
  an_experience :: "experience_facts option"
  an_skills :: "skills_facts option"
  an_engagement :: "engagement_facts option"

text \<open>\<open>s || ''\<close> and the truth value of an optional string.\<close>

definition str_or_empty :: "string option \<Rightarrow> string" where
  "str_or_empty s = (case s of None \<Rightarrow> [] | Some v \<Rightarrow> v)"

definition truthy :: "string option \<Rightarrow> bool" where
  "truthy s = (case s of None \<Rightarrow> False | Some v \<Rightarrow> v \<noteq> [])"

definition analyzeHeadline :: "string \<Rightarrow> headline_facts" where
  "analyzeHeadline h =
     (let hasKw = regex_test
            (lits [''developer'', ''engineer'', ''programmer'', ''software'', ''technical'',
                   ''react'', ''javascript'', ''python'', ''java'']) h;
          compelling = (length h > 20
            \<and> regex_test (lits [''|'', ''at'', ''specializing'', ''expert'']) h);
          len = length h;
          score = (if hasKw then 40 else 0) + (if compelling then 30 else 0)
                + (if 50 \<le> len \<and> len \<le> 120 then 30 else 0)
      in \<lparr>hl_hasKeywords = hasKw, isCompelling = compelling, hl_length = len,
          hl_score = score\<rparr>)"

definition analyzeSummary :: "string \<Rightarrow> summary_facts" where
  "analyzeSummary s =
     (let cta = regex_test
            (lits [''contact'', ''connect'', ''reach out'', ''let'' @ [CHR 0x27] @ ''s talk'']) s;
          hasKw = regex_test
            (lits [''developer'', ''engineer'', ''experience'', ''skilled'', ''expert'',
                   ''passionate'']) s;
          achievements = regex_test
            ([[Digits, Lit ''%''], [Digits, Lit '' years'']]
             @ lits [''increased'', ''improved'', ''built'', ''developed'']) s;
          len = length s;
          score = (if cta then 20 else 0) + (if hasKw then 30 else 0)
                + (if achievements then 30 else 0)
                + (if 200 \<le> len \<and> len \<le> 2000 then 20 else 0)
      in \<lparr>hasCallToAction = cta, sm_hasKeywords = hasKw, hasAchievements = achievements,
          sm_length = len, sm_score = score\<rparr>)"

definition analyzeExperience :: "experience_item list \<Rightarrow> experience_facts" where
  "analyzeExperience ex =
     (let quantifiable = list_ex (\<lambda>e. regex_test
            ([[Digits, Lit ''%''], [Digits, Lit ''+'']]
             @ lits [''increased'', ''improved'', ''reduced'']
             @ [[Lit ''built '', Digits]]) (str_or_empty (exp_description e))) ex;
          relevant = list_ex (\<lambda>e. regex_test
            (lits [''developer'', ''engineer'', ''software'', ''technical'', ''programming''])
            (str_or_empty (exp_title e))) ex;
          structured = (length ex > 0
            \<and> list_all (\<lambda>e. truthy (exp_title e) \<and> truthy (exp_company e)
                               \<and> truthy (exp_duration e)) ex);
          cnt = length ex;
          score = (if quantifiable then 30 else 0) + (if relevant then 30 else 0)
                + (if structured then 25 else 0) + (if cnt \<ge> 2 then 15 else 0)
      in \<lparr>hasQuantifiableResults = quantifiable, hasRelevantKeywords = relevant,
          isWellStructured = structured, ex_count = cnt, ex_score = score\<rparr>)"

definition analyzeSkills :: "string list \<Rightarrow> skills_facts" where
  "analyzeSkills sk =
     (let techSkills = [''javascript'', ''python'', ''java'', ''react'', ''node.js'',
                        ''angular'', ''vue'', ''typescript''];
          relevant = list_ex (\<lambda>skill.
            list_ex (\<lambda>tech. str_includes (toLowerCase skill) tech) techSkills) sk;
          technical = (length sk \<ge> 5);
          cnt = length sk;
          score = (if relevant then 40 else 0) + (if technical then 30 else 0)
                + (if cnt \<ge> 10 then 30 else 0)
      in \<lparr>hasRelevantSkills = relevant, hasTechnicalSkills = technical, sk_count = cnt,
          sk_score = score\<rparr>)"

definition analyzeEngagement :: "profile_data \<Rightarrow> engagement_facts" where
  "analyzeEngagement pd =
     (let recent = True;
          recommendations = True;
          cc = (case connections pd of None \<Rightarrow> 0 | Some n \<Rightarrow> n);
          score = (if recent then 30 else 0) + (if recommendations then 30 else 0)
                + (if cc \<ge> 500 then 40 else if cc \<ge> 100 then 20 else 0)
      in \<lparr>hasRecentActivity = recent, hasRecommendations = recommendations,
          connectionCount = cc, en_score = score\<rparr>)"

record li_result =
  res_headline :: headline_facts
  res_summary :: summary_facts
  res_experience :: experience_facts
  res_skills :: skills_facts
  res_engagement :: engagement_facts

definition performLinkedInAnalysis :: "profile_data \<Rightarrow> li_result" where
  "performLinkedInAnalysis pd =
     \<lparr>res_headline = analyzeHeadline (str_or_empty (headline pd)),
      res_summary = analyzeSummary (str_or_empty (summary pd)),
      res_experience = analyzeExperience (case experience pd of None \<Rightarrow> [] | Some ex \<Rightarrow> ex),
      res_skills = analyzeSkills (case skills pd of None \<Rightarrow> [] | Some sk \<Rightarrow> sk),
      res_engagement = analyzeEngagement pd\<rparr>"

definition stored_li_analysis :: "li_result \<Rightarrow> li_analysis" where
  "stored_li_analysis r =
     \<lparr>an_headline = Some (res_headline r), an_summary = Some (res_summary r),
      an_experience = Some (res_experience r), an_skills = Some (res_skills r),
      an_engagement = Some (res_engagement r)\<rparr>"

text \<open>A profile with every field absent.\<close>

definition empty_profile :: profile_data where
  "empty_profile = \<lparr>headline = None, summary = None, experience = None, skills = None,
                     connections = None\<rparr>"

record optimized_content =
  oc_headline :: "string option"
  oc_summary :: "string option"

record li_doc =
  li_userId :: nat
  profileUrl :: string
  profileData :: profile_data
  optimizationScore :: int
  li_an :: li_analysis
  optimizedContent :: "optimized_content option"
  li_comparisonData :: "comparison_data option"
  li_status :: string

definition no_li_analysis :: li_analysis where
  "no_li_analysis = \<lparr>an_headline = None, an_summary = None, an_experience = None,
                       an_skills = None, an_engagement = None\<rparr>"

definition li_scores :: "li_analysis \<Rightarrow> rat \<times> rat \<times> rat \<times> rat \<times> rat" where
  "li_scores an =
     (score_or0 (map_option hl_score (an_headline an)),
      score_or0 (map_option sm_score (an_summary an)),
      score_or0 (map_option ex_score (an_experience an)),
      score_or0 (map_option sk_score (an_skills an)),
      score_or0 (map_option en_score (an_engagement an)))"

definition li_weighted :: "rat \<Rightarrow> rat \<Rightarrow> rat \<Rightarrow> rat \<Rightarrow> rat \<Rightarrow> rat" where
  "li_weighted h s e k g =
     dadd (dadd (dadd (dadd (dmul h w_025) (dmul s w_025)) (dmul e w_025)) (dmul k w_015))
          (dmul g w_010)"

definition calculateOptimizationScore :: "li_doc \<Rightarrow> int \<times> li_doc" where
  "calculateOptimizationScore d =
     (case li_scores (li_an d) of (h, s, e, k, g) \<Rightarrow>
        let r = Math_round (li_weighted h s e k g) in (r, d\<lparr>optimizationScore := r\<rparr>))"

text \<open>The composite score in the words of the specification: exact arithmetic.\<close>

definition exact_li_sum :: "rat \<Rightarrow> rat \<Rightarrow> rat \<Rightarrow> rat \<Rightarrow> rat \<Rightarrow> rat" where
  "exact_li_sum h s e k g = (25 * h + 25 * s + 25 * e + 15 * k + 10 * g) / 100"

definition spec_li_composite :: "rat \<Rightarrow> rat \<Rightarrow> rat \<Rightarrow> rat \<Rightarrow> rat \<Rightarrow> int" where
  "spec_li_composite h s e k g = spec_round (exact_li_sum h s e k g)"

section \<open>User accounts and the usage / plan gate (models/User.js)\<close>

text \<open>
  The Mongoose schema of a user, restricted to the fields the plan gate and the billing
  handlers read or write. A \<open>Date\<close> is its number of milliseconds since the epoch, a
  nullable field is an \<open>option\<close>, and \<open>plan\<close> and \<open>planStatus\<close> stay strings, as in the
  source, with the schema's \<open>enum\<close> lists kept beside them.
\<close>

record usage_rec =
  cvScans :: int
  linkedinScans :: int
  monthlyResetDate :: int

record user =
  email :: string
  plan :: string
  planStatus :: string
  subscriptionId :: "string option"
  customerId :: "string option"
  planExpiresAt :: "int option"
  usage :: usage_rec

definition plan_enum :: "string list" where
  "plan_enum = [''free'', ''one-time'', ''basic'', ''pro'']"

definition planStatus_enum :: "string list" where
  "planStatus_enum = [''active'', ''cancelled'', ''expired'', ''pending'']"

text \<open>
  The test \<open>this.planExpiresAt && now > this.planExpiresAt\<close> that opens
  \<open>canPerformAction\<close> (and closes \<open>requirePlan\<close>).
\<close>

definition plan_expired :: "int \<Rightarrow> user \<Rightarrow> bool" where
  "plan_expired now u = (case planExpiresAt u of None \<Rightarrow> False | Some t \<Rightarrow> now > t)"

text \<open>
  \<open>canPerformAction(action)\<close>, with the clock reading \<open>new Date()\<close> passed in as \<open>now\<close>.
  The \<open>switch\<close> and the chains of \<open>if\<close> keep the order of the source, with the
  trailing \<open>return false\<close> of each branch.
\<close>

definition canPerformAction :: "int \<Rightarrow> user \<Rightarrow> string \<Rightarrow> bool" where
  "canPerformAction now u action =
     (if plan_expired now u then False
      else if action = ''cv_scan'' then
        (if plan u = ''free'' then False
         else if plan u = ''one-time'' then cvScans (usage u) < 1
         else if plan u = ''basic'' then cvScans (usage u) < 5
         else if plan u = ''pro'' then True
         else False)
      else if action = ''linkedin_scan'' then
        (if plan u = ''free'' then False
         else if plan u = ''one-time'' then linkedinScans (usage u) < 1
         else if plan u = ''basic'' then linkedinScans (usage u) < 5
         else if plan u = ''pro'' then True
         else False)
      else if action = ''pdf_export'' then plan u \<noteq> ''free''
      else if action = ''api_access'' then plan u = ''pro''
      else if action = ''comparison_view'' then plan u = ''pro''
      else False)"

text \<open>The usage counter that belongs to a scan action.\<close>

definition scan_counter :: "user \<Rightarrow> string \<Rightarrow> int" where
  "scan_counter u action =
     (if action = ''cv_scan'' then cvScans (usage u) else linkedinScans (usage u))"

text \<open>A user on a given plan with given counters, used to run the gate on concrete input.\<close>

definition sample_user :: "string \<Rightarrow> int \<Rightarrow> int \<Rightarrow> int option \<Rightarrow> user" where
  "sample_user p c l e =
     \<lparr>email = ''a@b.com'', plan = p, planStatus = ''active'', subscriptionId = Some ''sub_1'',
      customerId = Some ''cus_1'', planExpiresAt = e,
      usage = \<lparr>cvScans = c, linkedinScans = l, monthlyResetDate = 0\<rparr>\<rparr>"

section \<open>The users collection and the billing event handlers (routes/payments.js)\<close>

text \<open>
  The collection is the list of its documents and a document's \<open>_id\<close> is its position;
  the handlers never delete a document. \<open>User.findOne\<close> returns the first match.
  \<open>save\<close> validates the document against the schema first: of the fields the handlers
  write, \<open>plan\<close> and \<open>planStatus\<close> carry an \<open>enum\<close> validator, and a document that fails
  it is rejected and not written.
\<close>

fun find_index :: "('a \<Rightarrow> bool) \<Rightarrow> 'a list \<Rightarrow> nat option" where
  "find_index P [] = None"
| "find_index P (x # xs) = (if P x then Some 0 else map_option Suc (find_index P xs))"

definition valid_user :: "user \<Rightarrow> bool" where
  "valid_user u = (plan u \<in> set plan_enum \<and> planStatus u \<in> set planStatus_enum)"

datatype save_error = ValidationError

definition User_save :: "nat \<Rightarrow> user \<Rightarrow> user list \<Rightarrow> save_error + user list" where
  "User_save i u db = (if valid_user u then Inr (db[i := u]) else Inl ValidationError)"

text \<open>
  The \<open>data\<close> object of a webhook event, with the attributes the handlers read.
  \<open>renews_at\<close> is the time it denotes.
\<close>

record event_data =
  ev_id :: string
  ev_user_email :: string
  ev_customer_id :: string
  ev_variant_id :: string
  ev_status :: string
  ev_renews_at :: int
  ev_subscription_id :: string








definition handleSubscriptionExpired :: "event_data \<Rightarrow> user list \<Rightarrow> user list" where
  "handleSubscriptionExpired data db =
     (case find_index (\<lambda>u. subscriptionId u = Some (ev_id data)) db of
        None \<Rightarrow> db
      | Some i \<Rightarrow>
          let u' = (db ! i)\<lparr>plan := ''free'', planStatus := ''expired''\<rparr>
          in (case User_save i u' db of Inl e \<Rightarrow> db | Inr db' \<Rightarrow> db'))"

definition handleSubscriptionPaymentFailed :: "event_data \<Rightarrow> user list \<Rightarrow> user list" where
  "handleSubscriptionPaymentFailed data db =
     (case find_index (\<lambda>u. subscriptionId u = Some (ev_subscription_id data)) db of
        None \<Rightarrow> db
      | Some i \<Rightarrow>
          let u' = (db ! i)\<lparr>planStatus := ''past_due''\<rparr>
          in (case User_save i u' db of Inl e \<Rightarrow> db | Inr db' \<Rightarrow> db'))"

text \<open>
  What a completed scan does to the user (\<open>user.usage.cvScans += 1\<close> in the analyze
  route).
\<close>

definition count_cv_scan :: "user \<Rightarrow> user" where
  "count_cv_scan u = u\<lparr>usage := (usage u)\<lparr>cvScans := cvScans (usage u) + 1\<rparr>\<rparr>"

text \<open>Concrete input for the handlers.\<close>

definition sample_event :: event_data where
  "sample_event = \<lparr>ev_id = ''sub_1'', ev_user_email = ''a@b.com'', ev_customer_id = ''cus_1'',
                    ev_variant_id = ''103'', ev_status = ''active'', ev_renews_at = 5000,
                    ev_subscription_id = ''sub_1''\<rparr>"

section \<open>The routes (routes/cv.js, routes/linkedin.js, middleware/auth.js)\<close>

datatype http_error =
    Unauthorized
  | Forbidden_plan
  | Forbidden_expired
  | Forbidden_limit
  | BadRequest string
  | NotFound
  | ServerError

text \<open>
  \<open>requirePlan(requiredPlans)\<close>: \<open>None\<close> lets the request through to the next handler.
\<close>

definition requirePlan :: "string list \<Rightarrow> int \<Rightarrow> user \<Rightarrow> http_error option" where
  "requirePlan requiredPlans now u =
     (if plan u \<notin> set requiredPlans then Some Forbidden_plan
      else if plan_expired now u then Some Forbidden_expired
      else None)"

text \<open>
  The state the routes work on. \<open>outbox\<close> records the calls of \<open>sendUpsellEmail\<close>
  (recipient, score, analysis id).
\<close>

record app_state =
  users :: "user list"
  cvAnalyses :: "cv_doc list"
  outbox :: "(string \<times> int \<times> nat) list"

text \<open>
  The uploaded file as the handler sees it: \<open>parsed\<close> is the text \<open>pdf-parse\<close> or
  \<open>mammoth\<close> extracts, \<open>None\<close> when the parser throws.
\<close>

record upload =
  originalname :: string
  mimetype :: string
  parsed :: "string option"

record analyze_response =
  r_analysisId :: nat
  r_atsScore :: int
  r_analysis :: cv_analysis
  r_suggestions :: "suggestion list"
  r_processingTime :: int
  r_locked :: bool

text \<open>
  The block both routes run on the document in memory when \<open>req.user.plan === 'free'\<close>.
\<close>

definition truncate_for_free :: "cv_doc \<Rightarrow> cv_doc" where
  "truncate_for_free d =
     d\<lparr>suggestions := take 2 (suggestions d),
       analysis := (analysis d)\<lparr>an_keywords :=
         map_option (\<lambda>k. k\<lparr>kw_missing := take 3 (kw_missing k), kw_found := take 3 (kw_found k)\<rparr>)
           (an_keywords (analysis d))\<rparr>,
       locked := True\<rparr>"

text \<open>
  \<open>POST /analyze\<close>: \<open>auth\<close>, \<open>requirePlan(['one-time', 'basic', 'pro'])\<close>, the upload, then
  the handler. \<open>uidx\<close> is the authenticated user, \<open>ptime\<close> the measured processing time.
  The new document is saved once when created and once when analysed; a failure of the
  final \<open>user.save()\<close> is caught by the handler and answered with status 500.
\<close>

definition cv_analyze ::
    "int \<Rightarrow> int \<Rightarrow> nat \<Rightarrow> upload option \<Rightarrow> app_state \<Rightarrow> (http_error + analyze_response) \<times> app_state" where
  "cv_analyze now ptime uidx file st =
     (if length (users st) \<le> uidx then (Inl Unauthorized, st)
      else
        let user = users st ! uidx in
        case requirePlan [''one-time'', ''basic'', ''pro''] now user of
          Some e \<Rightarrow> (Inl e, st)
        | None \<Rightarrow>
            (case file of
               None \<Rightarrow> (Inl (BadRequest ''No file uploaded''), st)
             | Some f \<Rightarrow>
                 if \<not> canPerformAction now user ''cv_scan'' then (Inl Forbidden_limit, st)
                 else
                   (case parsed f of
                      None \<Rightarrow>
                        (Inl (BadRequest (''Failed to parse file. Please ensure it''
                                @ [CHR 0x27] @ ''s a valid PDF or DOCX file.'')), st)
                    | Some text \<Rightarrow>
                        if trim_is_empty text
                        then (Inl (BadRequest ''No text content found in the file''), st)
                        else
                          let ident = length (cvAnalyses st);
                              d0 = new_cv_doc uidx (originalname f)
                                     (if mimetype f = ''application/pdf'' then ''pdf''
                                      else ''docx'') text;
                              mail = (if plan user = ''free''
                                      then outbox st @ [(email user, atsScore d0, ident)]
                                      else outbox st);
                              d1 = d0\<lparr>analysis := stored_analysis (performATSAnalysis text)\<rparr>;
                              d2 = snd (calculateATSScore d1);
                              d3 = snd (generateSuggestions d2);
                              d4 = d3\<lparr>status := ''completed'', processingTime := ptime\<rparr>;
                              st1 = st\<lparr>cvAnalyses := cvAnalyses st @ [d4], outbox := mail\<rparr>
                          in (case User_save uidx (count_cv_scan user) (users st) of
                                Inl e \<Rightarrow> (Inl ServerError, st1)
                              | Inr us \<Rightarrow>
                                  let d5 = (if plan user = ''free'' then truncate_for_free d4
                                            else d4)
                                  in (Inr \<lparr>r_analysisId = ident, r_atsScore = atsScore d5,
                                           r_analysis = analysis d5,
                                           r_suggestions = suggestions d5,
                                           r_processingTime = processingTime d5,
                                           r_locked = locked d5\<rparr>,
                                      st1\<lparr>users := us\<rparr>)))))"

text \<open>
  \<open>res.json(document)\<close> sends the paths of the schema: a property set on the document
  in memory, as \<open>locked\<close> is, is not in the answer.
\<close>

definition toJSON :: "cv_doc \<Rightarrow> cv_doc" where
  "toJSON d = d\<lparr>locked := False\<rparr>"

text \<open>
  \<open>GET /analysis/:id\<close>: \<open>auth\<close>, then the handler; the document is answered, not saved.
\<close>

definition cv_get_analysis :: "nat \<Rightarrow> nat \<Rightarrow> app_state \<Rightarrow> (http_error + cv_doc) \<times> app_state" where
  "cv_get_analysis uidx ident st =
     (if length (users st) \<le> uidx then (Inl Unauthorized, st)
      else if ident < length (cvAnalyses st) \<and> userId (cvAnalyses st ! ident) = uidx
      then
        let a = cvAnalyses st ! ident
        in (Inr (toJSON (if plan (users st ! uidx) = ''free'' then truncate_for_free a else a)),
            st)
      else (Inl NotFound, st))"







section \<open>Concrete input\<close>

text \<open>A document analysed as \<open>POST /analyze\<close> does, before the scores are combined.\<close>

definition analysed_cv_doc :: "string \<Rightarrow> cv_doc" where
  "analysed_cv_doc text =
     (new_cv_doc 0 ''cv.pdf'' ''pdf'' text)\<lparr>analysis := stored_analysis (performATSAnalysis text)\<rparr>"

text \<open>A r\'esum\'e with four catalogue keywords and no section headings.\<close>

definition rich_text :: string where
  "rich_text = ''Python Java React Docker''"

text \<open>Eighteen catalogue keywords and nothing any other scorer credits.\<close>

definition tie_text :: string where
  "tie_text = ''css sql api tdd bdd ios npm jwt html rest rust sass less yarn .net agile scrum cloud''"

text \<open>Two catalogue keywords: the sub-scores are 10, 0, 0 and 0, the weighted sum is 3.5.\<close>

definition half_text :: string where
  "half_text = ''css sql''"

text \<open>The profile \<open>extractLinkedInData\<close> returns.\<close>

definition mock_profile :: profile_data where
  "mock_profile =
     \<lparr>headline = Some ''Software Developer at Tech Company'',
      summary = Some ''Experienced software developer with 3+ years in web development. Skilled in JavaScript, React, and Node.js.'',
      experience = Some [\<lparr>exp_title = Some ''Software Developer'',
                           exp_company = Some ''Tech Company'',
                           exp_duration = Some ''2021 - Present'',
                           exp_description = Some ''Developed web applications using React and Node.js''\<rparr>],
      skills = Some [''JavaScript'', ''React'', ''Node.js'', ''HTML'', ''CSS''],
      connections = Some 250\<rparr>"

definition analysed_li_doc :: "profile_data \<Rightarrow> li_doc" where
  "analysed_li_doc pd =
     \<lparr>li_userId = 0, profileUrl = ''manual-content'', profileData = pd, optimizationScore = 0,
      li_an = stored_li_analysis (performLinkedInAnalysis pd), optimizedContent = None,
      li_comparisonData = None, li_status = ''analyzing''\<rparr>"

text \<open>
  A user on the pro plan has the r\'esum\'e \<open>rich_text\<close> analysed and then optimized.
  After that the subscription expires.
\<close>

definition pro_users :: "user list" where
  "pro_users = [sample_user ''pro'' 0 0 (Some 5000)]"

definition rich_upload :: upload where
  "rich_upload = \<lparr>originalname = ''cv.pdf'', mimetype = ''application/pdf'',
                   parsed = Some rich_text\<rparr>"

definition rich_state :: app_state where
  "rich_state =
     snd (cv_analyze 1000 7 0 (Some rich_upload)
            \<lparr>users = pro_users, cvAnalyses = [], outbox = []\<rparr>)"




definition lapsed_state :: app_state where
  "lapsed_state = rich_state\<lparr>users := handleSubscriptionExpired sample_event (users rich_state)\<rparr>"








section \<open>Rounding: how far a binary64 operation is from the exact result\<close>

lemma rne_err: "\<bar>of_int (rne y) - y\<bar> \<le> 1/2"
proof -
  have "of_int \<lfloor>y\<rfloor> \<le> y" "y < of_int \<lfloor>y\<rfloor> + 1" by linarith+
  then show ?thesis
    unfolding rne_def Let_def by (auto simp: abs_le_iff)
qed

lemma rne_nonneg: "0 \<le> y \<Longrightarrow> 0 \<le> rne y"
  unfolding rne_def Let_def by (auto simp: zero_le_floor intro: add_nonneg_nonneg)

lemma binade_le:
  assumes "x \<noteq> 0"
  shows "2 powi (binade x) \<le> \<bar>x\<bar>"
proof -
  obtain p q where pq: "quotient_of \<bar>x\<bar> = (p, q)" by (cases "quotient_of \<bar>x\<bar>")
  have q: "0 < q" using pq by (rule quotient_of_denom_pos)
  have x: "\<bar>x\<bar> = of_int p / of_int q" using pq by (rule quotient_of_div)
  have p: "0 < p"
  proof (rule ccontr)
    assume "\<not> 0 < p"
    then have "of_int p / (of_int q :: rat) \<le> 0"
      using q by (simp add: divide_le_0_iff)
    with x assms show False by simp
  qed
  show ?thesis
  proof (cases "2 powi (bitlen p - bitlen q) \<le> \<bar>x\<bar>")
    case True
    then show ?thesis by (simp add: binade_def pq)
  next
    case False
    have bp: "1 \<le> bitlen p" using p by (simp add: bitlen_alt_def)
    have bq: "1 \<le> bitlen q" using q by (simp add: bitlen_alt_def)
    have lo: "(2::int) ^ nat (bitlen p - 1) \<le> p" using bitlen_bounds [OF p] by simp
    have hi: "q < (2::int) ^ nat (bitlen q)" using bitlen_bounds [OF q] by simp
    have lo': "(2::rat) ^ nat (bitlen p - 1) \<le> of_int p"
      using lo by (metis of_int_le_iff of_int_numeral of_int_power)
    have hi': "(of_int q :: rat) \<le> 2 ^ nat (bitlen q)"
      using hi by (metis less_imp_le of_int_le_iff of_int_numeral of_int_power)
    have "(2::rat) powi (bitlen p - bitlen q - 1) = 2 powi (bitlen p - 1) / 2 powi (bitlen q)"
      using power_int_diff [of "2::rat" "bitlen p - 1" "bitlen q"] by (simp add: algebra_simps)
    also have "\<dots> = 2 ^ nat (bitlen p - 1) / 2 ^ nat (bitlen q)"
      using bp bq by (simp add: power_int_def)
    also have "\<dots> \<le> of_int p / of_int q"
      using lo' hi' q p by (intro frac_le) auto
    finally have "(2::rat) powi (bitlen p - bitlen q - 1) \<le> \<bar>x\<bar>" by (simp add: x)
    moreover have "binade x = bitlen p - bitlen q - 1"
      using False by (simp add: binade_def pq)
    ultimately show ?thesis by simp
  qed
qed

lemma binade_upper:
  assumes "x \<noteq> 0" and "\<bar>x\<bar> \<le> 2 ^ n"
  shows "binade x \<le> int n"
proof -
  have "(2::rat) powi (binade x) \<le> 2 powi (int n)"
    using binade_le [OF assms(1)] assms(2) by (simp add: power_int_of_nat)
  then show ?thesis by (rule power_int_le_imp_le_exp [rotated]) auto
qed

lemma fl64_nonneg: "0 \<le> x \<Longrightarrow> 0 \<le> fl64 x"
  unfolding fl64_def Let_def
  by (auto intro!: mult_nonneg_nonneg rne_nonneg divide_nonneg_nonneg zero_le_power_int)

lemma fl64_err:
  assumes "\<bar>x\<bar> \<le> 2 ^ n"
  shows "\<bar>fl64 x - x\<bar> \<le> 2 powi (int n - 53)"
proof (cases "x = 0")
  case True
  then show ?thesis by (simp add: fl64_def)
next
  case False
  define e where "e = max (binade x) (- 1022)"
  define q :: rat where "q = 2 powi (e - 52)"
  have qpos: "0 < q" by (simp add: q_def)
  have e: "e \<le> int n" using binade_upper [OF False assms] by (simp add: e_def)
  have "fl64 x - x = (of_int (rne (x / q)) - x / q) * q"
    using False qpos by (simp add: fl64_def Let_def e_def q_def algebra_simps)
  then have "\<bar>fl64 x - x\<bar> = \<bar>of_int (rne (x / q)) - x / q\<bar> * q"
    using qpos by (simp add: abs_mult)
  also have "\<dots> \<le> (1/2) * q"
    using rne_err [of "x / q"] qpos by (intro mult_right_mono) auto
  also have "\<dots> = 2 powi (e - 53)"
    using power_int_diff [of "2::rat" "e - 52" 1] by (simp add: q_def)
  also have "\<dots> \<le> 2 powi (int n - 53)"
    using e by (intro power_int_increasing) auto
  finally show ?thesis .
qed

text \<open>Below 128 one rounding moves a value by at most \<open>2^-46\<close>.\<close>

lemma fl64_err7:
  assumes "0 \<le> x" and "x \<le> 128"
  shows "fl64 x - x \<le> 1 / 70368744177664" and "x - fl64 x \<le> 1 / 70368744177664"
proof -
  have "\<bar>x\<bar> \<le> 2 ^ 7" using assms by simp
  from fl64_err [OF this] have "\<bar>fl64 x - x\<bar> \<le> 2 powi (int 7 - 53)" .
  moreover have "(2::rat) powi (int 7 - 53) = 1 / 70368744177664"
    by (simp add: power_int_def power_one_over)
  ultimately have "\<bar>fl64 x - x\<bar> \<le> 1 / 70368744177664" by simp
  then show "fl64 x - x \<le> 1 / 70368744177664" and "x - fl64 x \<le> 1 / 70368744177664"
    by linarith+
qed

lemma w_035_val: "w_035 = 3152519739159347 / 9007199254740992"
  by code_simp

lemma w_025_val: "w_025 = 1 / 4"
  by code_simp

lemma w_015_val: "w_015 = 5404319552844595 / 36028797018963968"
  by code_simp

lemma w_010_val: "w_010 = 3602879701896397 / 36028797018963968"
  by code_simp

lemma dmul_bound:
  assumes "0 \<le> k" "k \<le> 100" "0 \<le> w" "w \<le> 1"
  shows "dmul k w - k * w \<le> 1 / 70368744177664"
    and "k * w - dmul k w \<le> 1 / 70368744177664"
    and "0 \<le> dmul k w"
proof -
  have nn: "0 \<le> k * w" using assms by simp
  have "k * w \<le> 100 * 1" using assms by (intro mult_mono) auto
  then have le: "k * w \<le> 128" by simp
  show "dmul k w - k * w \<le> 1 / 70368744177664"
    and "k * w - dmul k w \<le> 1 / 70368744177664"
    using fl64_err7 [OF nn le] by (simp_all add: dmul_def)
  show "0 \<le> dmul k w" using fl64_nonneg [OF nn] by (simp add: dmul_def)
qed

lemma dadd_bound:
  assumes "0 \<le> x" "0 \<le> y" "x + y \<le> 128"
  shows "dadd x y - (x + y) \<le> 1 / 70368744177664"
    and "(x + y) - dadd x y \<le> 1 / 70368744177664"
    and "0 \<le> dadd x y"
proof -
  have nn: "0 \<le> x + y" using assms by simp
  show "dadd x y - (x + y) \<le> 1 / 70368744177664"
    and "(x + y) - dadd x y \<le> 1 / 70368744177664"
    using fl64_err7 [OF nn assms(3)] by (simp_all add: dadd_def)
  show "0 \<le> dadd x y" using fl64_nonneg [OF nn] by (simp add: dadd_def)
qed

lemma w_035_close:
  assumes "0 \<le> k" "k \<le> 100"
  shows "k * w_035 - 35 * k / 100 \<le> 1 / 70368744177664"
    and "35 * k / 100 - k * w_035 \<le> 1 / 70368744177664"
  using assms by (simp_all add: w_035_val field_simps)

lemma w_025_close: "k * w_025 = 25 * k / 100"
  by (simp add: w_025_val)

lemma w_015_close:
  assumes "0 \<le> k" "k \<le> 100"
  shows "k * w_015 - 15 * k / 100 \<le> 1 / 70368744177664"
    and "15 * k / 100 - k * w_015 \<le> 1 / 70368744177664"
  using assms by (simp_all add: w_015_val field_simps)

lemma w_010_close:
  assumes "0 \<le> k" "k \<le> 100"
  shows "k * w_010 - 10 * k / 100 \<le> 1 / 70368744177664"
    and "10 * k / 100 - k * w_010 \<le> 1 / 70368744177664"
  using assms by (simp_all add: w_010_val field_simps)

lemma weights_unit:
  "0 \<le> w_035" "w_035 \<le> 1" "0 \<le> w_025" "w_025 \<le> 1"
  "0 \<le> w_015" "w_015 \<le> 1" "0 \<le> w_010" "w_010 \<le> 1"
  by (simp_all add: w_035_val w_025_val w_015_val w_010_val)

section \<open>The weighted sums in binary64 arithmetic\<close>

lemma cv_weighted_err:
  assumes "0 \<le> k" "k \<le> 100" "0 \<le> f" "f \<le> 100" "0 \<le> c" "c \<le> 100" "0 \<le> t" "t \<le> 100"
  shows "\<bar>cv_weighted k f c t - exact_cv_sum k f c t\<bar> \<le> 1 / 2 ^ 40"
proof -
  define a1 where "a1 = k * w_035"
  define a2 where "a2 = f * w_025"
  define a3 where "a3 = c * w_025"
  define a4 where "a4 = t * w_015"
  define p1 where "p1 = dmul k w_035"
  define p2 where "p2 = dmul f w_025"
  define p3 where "p3 = dmul c w_025"
  define p4 where "p4 = dmul t w_015"
  define s1 where "s1 = dadd p1 p2"
  define s2 where "s2 = dadd s1 p3"
  define s3 where "s3 = dadd s2 p4"
  define x1 where "x1 = 35 * k / 100"
  define x2 where "x2 = 25 * f / 100"
  define x3 where "x3 = 25 * c / 100"
  define x4 where "x4 = 15 * t / 100"
  have cw: "cv_weighted k f c t = s3"
    by (simp add: cv_weighted_def s3_def s2_def s1_def p1_def p2_def p3_def p4_def)
  have ex: "exact_cv_sum k f c t = x1 + x2 + x3 + x4"
    by (simp add: exact_cv_sum_def x1_def x2_def x3_def x4_def add_divide_distrib)
  have b: "0 \<le> x1" "x1 \<le> 35" "0 \<le> x2" "x2 \<le> 25" "0 \<le> x3" "x3 \<le> 25" "0 \<le> x4" "x4 \<le> 15"
    using assms by (simp_all add: x1_def x2_def x3_def x4_def)
  have c1: "a1 - x1 \<le> 1 / 70368744177664" "x1 - a1 \<le> 1 / 70368744177664"
    using w_035_close [OF assms(1,2)] by (simp_all add: a1_def x1_def)
  have c2: "a2 = x2" by (simp add: a2_def x2_def w_025_close)
  have c3: "a3 = x3" by (simp add: a3_def x3_def w_025_close)
  have c4: "a4 - x4 \<le> 1 / 70368744177664" "x4 - a4 \<le> 1 / 70368744177664"
    using w_015_close [OF assms(7,8)] by (simp_all add: a4_def x4_def)
  have e1: "p1 - a1 \<le> 1 / 70368744177664" "a1 - p1 \<le> 1 / 70368744177664" "0 \<le> p1"
    using dmul_bound [OF assms(1,2) weights_unit(1,2)] by (simp_all add: p1_def a1_def)
  have e2: "p2 - a2 \<le> 1 / 70368744177664" "a2 - p2 \<le> 1 / 70368744177664" "0 \<le> p2"
    using dmul_bound [OF assms(3,4) weights_unit(3,4)] by (simp_all add: p2_def a2_def)
  have e3: "p3 - a3 \<le> 1 / 70368744177664" "a3 - p3 \<le> 1 / 70368744177664" "0 \<le> p3"
    using dmul_bound [OF assms(5,6) weights_unit(3,4)] by (simp_all add: p3_def a3_def)
  have e4: "p4 - a4 \<le> 1 / 70368744177664" "a4 - p4 \<le> 1 / 70368744177664" "0 \<le> p4"
    using dmul_bound [OF assms(7,8) weights_unit(5,6)] by (simp_all add: p4_def a4_def)
  have r1: "p1 + p2 \<le> 128" using e1 e2 c1 c2 b by linarith
  have f1: "s1 - (p1 + p2) \<le> 1 / 70368744177664" "(p1 + p2) - s1 \<le> 1 / 70368744177664" "0 \<le> s1"
    using dadd_bound [OF e1(3) e2(3) r1] by (simp_all add: s1_def)
  have r2: "s1 + p3 \<le> 128" using f1 e1 e2 e3 c1 c2 c3 b by linarith
  have f2: "s2 - (s1 + p3) \<le> 1 / 70368744177664" "(s1 + p3) - s2 \<le> 1 / 70368744177664" "0 \<le> s2"
    using dadd_bound [OF f1(3) e3(3) r2] by (simp_all add: s2_def)
  have r3: "s2 + p4 \<le> 128" using f2 f1 e1 e2 e3 e4 c1 c2 c3 c4 b by linarith
  have f3: "s3 - (s2 + p4) \<le> 1 / 70368744177664" "(s2 + p4) - s3 \<le> 1 / 70368744177664"
    using dadd_bound [OF f2(3) e4(3) r3] by (simp_all add: s3_def)
  have up: "s3 - (x1 + x2 + x3 + x4) \<le> 9 / 70368744177664"
    using e1 e2 e3 e4 f1 f2 f3 c1 c2 c3 c4 by linarith
  have lo: "(x1 + x2 + x3 + x4) - s3 \<le> 9 / 70368744177664"
    using e1 e2 e3 e4 f1 f2 f3 c1 c2 c3 c4 by linarith
  have "\<bar>s3 - (x1 + x2 + x3 + x4)\<bar> \<le> 1 / 1099511627776"
    using up lo by linarith
  moreover have "(1::rat) / 2 ^ 40 = 1 / 1099511627776" by simp
  ultimately show ?thesis by (simp only: cw ex)
qed

lemma li_weighted_err:
  assumes "0 \<le> h" "h \<le> 100" "0 \<le> s" "s \<le> 100" "0 \<le> e" "e \<le> 100"
    and "0 \<le> k" "k \<le> 100" "0 \<le> g" "g \<le> 100"
  shows "\<bar>li_weighted h s e k g - exact_li_sum h s e k g\<bar> \<le> 1 / 2 ^ 40"
proof -
  define a1 where "a1 = h * w_025"
  define a2 where "a2 = s * w_025"
  define a3 where "a3 = e * w_025"
  define a4 where "a4 = k * w_015"
  define a5 where "a5 = g * w_010"
  define p1 where "p1 = dmul h w_025"
  define p2 where "p2 = dmul s w_025"
  define p3 where "p3 = dmul e w_025"
  define p4 where "p4 = dmul k w_015"
  define p5 where "p5 = dmul g w_010"
  define s1 where "s1 = dadd p1 p2"
  define s2 where "s2 = dadd s1 p3"
  define s3 where "s3 = dadd s2 p4"
  define s4 where "s4 = dadd s3 p5"
  define x1 where "x1 = 25 * h / 100"
  define x2 where "x2 = 25 * s / 100"
  define x3 where "x3 = 25 * e / 100"
  define x4 where "x4 = 15 * k / 100"
  define x5 where "x5 = 10 * g / 100"
  have cw: "li_weighted h s e k g = s4"
    by (simp add: li_weighted_def s4_def s3_def s2_def s1_def p1_def p2_def p3_def p4_def p5_def)
  have ex: "exact_li_sum h s e k g = x1 + x2 + x3 + x4 + x5"
    by (simp add: exact_li_sum_def x1_def x2_def x3_def x4_def x5_def add_divide_distrib)
  have b: "0 \<le> x1" "x1 \<le> 25" "0 \<le> x2" "x2 \<le> 25" "0 \<le> x3" "x3 \<le> 25"
    "0 \<le> x4" "x4 \<le> 15" "0 \<le> x5" "x5 \<le> 10"
    using assms by (simp_all add: x1_def x2_def x3_def x4_def x5_def)
  have c1: "a1 = x1" by (simp add: a1_def x1_def w_025_close)
  have c2: "a2 = x2" by (simp add: a2_def x2_def w_025_close)
  have c3: "a3 = x3" by (simp add: a3_def x3_def w_025_close)
  have c4: "a4 - x4 \<le> 1 / 70368744177664" "x4 - a4 \<le> 1 / 70368744177664"
    using w_015_close [OF assms(7,8)] by (simp_all add: a4_def x4_def)
  have c5: "a5 - x5 \<le> 1 / 70368744177664" "x5 - a5 \<le> 1 / 70368744177664"
    using w_010_close [OF assms(9,10)] by (simp_all add: a5_def x5_def)
  have e1: "p1 - a1 \<le> 1 / 70368744177664" "a1 - p1 \<le> 1 / 70368744177664" "0 \<le> p1"
    using dmul_bound [OF assms(1,2) weights_unit(3,4)] by (simp_all add: p1_def a1_def)
  have e2: "p2 - a2 \<le> 1 / 70368744177664" "a2 - p2 \<le> 1 / 70368744177664" "0 \<le> p2"
    using dmul_bound [OF assms(3,4) weights_unit(3,4)] by (simp_all add: p2_def a2_def)
  have e3: "p3 - a3 \<le> 1 / 70368744177664" "a3 - p3 \<le> 1 / 70368744177664" "0 \<le> p3"
    using dmul_bound [OF assms(5,6) weights_unit(3,4)] by (simp_all add: p3_def a3_def)
  have e4: "p4 - a4 \<le> 1 / 70368744177664" "a4 - p4 \<le> 1 / 70368744177664" "0 \<le> p4"
    using dmul_bound [OF assms(7,8) weights_unit(5,6)] by (simp_all add: p4_def a4_def)
  have e5: "p5 - a5 \<le> 1 / 70368744177664" "a5 - p5 \<le> 1 / 70368744177664" "0 \<le> p5"
    using dmul_bound [OF assms(9,10) weights_unit(7,8)] by (simp_all add: p5_def a5_def)
  have r1: "p1 + p2 \<le> 128" using e1 e2 c1 c2 b by linarith
  have f1: "s1 - (p1 + p2) \<le> 1 / 70368744177664" "(p1 + p2) - s1 \<le> 1 / 70368744177664" "0 \<le> s1"
    using dadd_bound [OF e1(3) e2(3) r1] by (simp_all add: s1_def)
  have r2: "s1 + p3 \<le> 128" using f1 e1 e2 e3 c1 c2 c3 b by linarith
  have f2: "s2 - (s1 + p3) \<le> 1 / 70368744177664" "(s1 + p3) - s2 \<le> 1 / 70368744177664" "0 \<le> s2"
    using dadd_bound [OF f1(3) e3(3) r2] by (simp_all add: s2_def)
  have r3: "s2 + p4 \<le> 128" using f2 f1 e1 e2 e3 e4 c1 c2 c3 c4 b by linarith
  have f3: "s3 - (s2 + p4) \<le> 1 / 70368744177664" "(s2 + p4) - s3 \<le> 1 / 70368744177664" "0 \<le> s3"
    using dadd_bound [OF f2(3) e4(3) r3] by (simp_all add: s3_def)
  have r4: "s3 + p5 \<le> 128" using f3 f2 f1 e1 e2 e3 e4 e5 c1 c2 c3 c4 c5 b by linarith
  have f4: "s4 - (s3 + p5) \<le> 1 / 70368744177664" "(s3 + p5) - s4 \<le> 1 / 70368744177664"
    using dadd_bound [OF f3(3) e5(3) r4] by (simp_all add: s4_def)
  have up: "s4 - (x1 + x2 + x3 + x4 + x5) \<le> 11 / 70368744177664"
    using e1 e2 e3 e4 e5 f1 f2 f3 f4 c1 c2 c3 c4 c5 by linarith
  have lo: "(x1 + x2 + x3 + x4 + x5) - s4 \<le> 11 / 70368744177664"
    using e1 e2 e3 e4 e5 f1 f2 f3 f4 c1 c2 c3 c4 c5 by linarith
  have "\<bar>s4 - (x1 + x2 + x3 + x4 + x5)\<bar> \<le> 1 / 1099511627776"
    using up lo by linarith
  moreover have "(1::rat) / 2 ^ 40 = 1 / 1099511627776" by simp
  ultimately show ?thesis by (simp only: cw ex)
qed

text \<open>
  \<open>Math.round\<close> of a value within \<open>2^-40\<close> of an exact non-negative sum gives the
  specified rounding of that sum unless the sum is that near to a tie, and is never
  further from it than a half and \<open>2^-40\<close>.
\<close>

lemma Math_round_close:
  assumes "\<bar>d - x\<bar> \<le> 1 / 2 ^ 40" and "0 \<le> x" and "\<not> near_tie x"
  shows "Math_round d = spec_round x"
proof -
  define m where "m = \<lfloor>x\<rfloor>"
  have m: "of_int m \<le> x" "x < of_int m + 1" unfolding m_def by linarith+
  have eps: "(1::rat) / 2 ^ 40 = 1 / 1099511627776" by simp
  have d: "d - x \<le> 1 / 1099511627776" "x - d \<le> 1 / 1099511627776"
    using assms(1) unfolding eps by linarith+
  have far: "1 / 1099511627776 < \<bar>x - (of_int m + 1/2)\<bar>"
    using assms(3) unfolding near_tie_def eps m_def by linarith
  show ?thesis
  proof (cases "x < of_int m + 1/2")
    case True
    with far have "x < of_int m + 1/2 - 1 / 1099511627776" by linarith
    with m d have "\<lfloor>d + 1/2\<rfloor> = m" "\<lfloor>x + 1/2\<rfloor> = m" by linarith+
    then show ?thesis using assms(2) by (simp add: Math_round_def spec_round_def)
  next
    case False
    with far have "of_int m + 1/2 + 1 / 1099511627776 < x" by linarith
    with m d have "\<lfloor>d + 1/2\<rfloor> = m + 1" "\<lfloor>x + 1/2\<rfloor> = m + 1" by linarith+
    then show ?thesis using assms(2) by (simp add: Math_round_def spec_round_def)
  qed
qed

lemma Math_round_within:
  assumes "\<bar>d - x\<bar> \<le> 1 / 2 ^ 40"
  shows "\<bar>of_int (Math_round d) - x\<bar> \<le> 1/2 + 1 / 2 ^ 40"
proof -
  have "of_int \<lfloor>d + 1/2\<rfloor> \<le> d + 1/2" "d + 1/2 < of_int \<lfloor>d + 1/2\<rfloor> + 1" by linarith+
  moreover have eps: "(1::rat) / 2 ^ 40 = 1 / 1099511627776" by simp
  moreover have "d - x \<le> 1 / 1099511627776" "x - d \<le> 1 / 1099511627776"
    using assms unfolding eps by linarith+
  ultimately show ?thesis unfolding Math_round_def eps by linarith
qed

text \<open>
  For whole sub-scores the exact sum is a whole number of hundredths, so it is either a
  tie or at least a hundredth away from one.
\<close>

lemma hundredths_not_near_tie:
  assumes "n mod 100 \<noteq> (50::int)"
  shows "\<not> near_tie (of_int n / 100)"
proof -
  define q where "q = n div 100"
  define r where "r = n mod 100"
  have n: "n = 100 * q + r" by (simp add: q_def r_def)
  have r: "0 \<le> r" "r < 100" "r \<noteq> 50" using assms by (simp_all add: r_def)
  have fl: "\<lfloor>(of_int n :: rat) / 100\<rfloor> = q"
    using floor_divide_of_int_eq [of n 100, where ?'a = rat] by (simp add: q_def)
  have eq: "(of_int n :: rat) / 100 - (of_int q + 1/2) = (of_int r - 50) / 100"
    by (simp add: n field_simps)
  define A :: rat where "A = \<bar>of_int r - 50\<bar>"
  define B :: rat where "B = \<bar>of_int n / 100 - (of_int q + 1/2)\<bar>"
  have big: "1 \<le> A"
  proof -
    have "1 \<le> \<bar>r - 50\<bar>" using r by linarith
    then have "(of_int (1::int) :: rat) \<le> of_int \<bar>r - 50\<bar>" by (simp only: of_int_le_iff)
    then show ?thesis by (simp add: A_def)
  qed
  have "B = A / 100"
    unfolding A_def B_def eq by (simp add: abs_divide)
  with big have "1 / 100 \<le> B" by linarith
  then have "1 / 100 \<le> \<bar>(of_int n :: rat) / 100 - (of_int q + 1/2)\<bar>"
    by (simp only: B_def)
  moreover have "(1::rat) / 2 ^ 40 = 1 / 1099511627776" by simp
  ultimately show ?thesis unfolding near_tie_def fl by linarith
qed

section \<open>The scorers on the concrete input\<close>

lemma rich_analysis_val:
  "performATSAnalysis rich_text =
     \<lparr>res_keywords = \<lparr>kw_found = [''python'', ''java'', ''react'', ''docker''],
                       kw_missing = [''javascript'', ''node.js'', ''angular'', ''vue'',
                                     ''typescript'', ''html'', ''css'', ''sql'', ''mongodb'',
                                     ''postgresql''],
                       kw_score = 20\<rparr>,
      res_formatting = \<lparr>hasProperSections = False, hasContactInfo = False,
                        hasSkillsSection = False, hasExperienceSection = False, fmt_score = 0\<rparr>,
      res_content = \<lparr>hasQuantifiableAchievements = False, hasRelevantExperience = False,
                      hasEducationSection = False, wordCount = 4, content_score = 0\<rparr>,
      res_technical = \<lparr>programmingLanguages = [''python'', ''java''], frameworks = [''react''],
                        tools = [''docker''], databases = [], tech_score = 40\<rparr>\<rparr>"
  by code_simp


lemma tie_analysis_val:
  "performATSAnalysis tie_text =
     \<lparr>res_keywords = \<lparr>kw_found = [''html'', ''css'', ''sql'', ''agile'', ''scrum'', ''rest'',
                                   ''api'', ''cloud'', ''tdd'', ''bdd'', ''.net'', ''rust'',
                                   ''ios'', ''sass'', ''less'', ''npm'', ''yarn'', ''jwt''],
                       kw_missing = [''javascript'', ''python'', ''java'', ''react'', ''node.js'',
                                     ''angular'', ''vue'', ''typescript'', ''mongodb'',
                                     ''postgresql''],
                       kw_score = 90\<rparr>,
      res_formatting = \<lparr>hasProperSections = False, hasContactInfo = False,
                        hasSkillsSection = False, hasExperienceSection = False, fmt_score = 0\<rparr>,
      res_content = \<lparr>hasQuantifiableAchievements = False, hasRelevantExperience = False,
                      hasEducationSection = False, wordCount = 18, content_score = 0\<rparr>,
      res_technical = \<lparr>programmingLanguages = [], frameworks = [], tools = [], databases = [],
                        tech_score = 0\<rparr>\<rparr>"
  by code_simp

lemma half_analysis_scores:
  "kw_score (res_keywords (performATSAnalysis half_text)) = 10"
  "fmt_score (res_formatting (performATSAnalysis half_text)) = 0"
  "content_score (res_content (performATSAnalysis half_text)) = 0"
  "tech_score (res_technical (performATSAnalysis half_text)) = 0"
  by code_simp+

lemma mock_analysis_val:
  "performLinkedInAnalysis mock_profile =
     \<lparr>res_headline = \<lparr>hl_hasKeywords = True, isCompelling = True, hl_length = 34,
                       hl_score = 70\<rparr>,
      res_summary = \<lparr>hasCallToAction = False, sm_hasKeywords = True, hasAchievements = False,
                      sm_length = 107, sm_score = 30\<rparr>,
      res_experience = \<lparr>hasQuantifiableResults = False, hasRelevantKeywords = True,
                         isWellStructured = True, ex_count = 1, ex_score = 55\<rparr>,
      res_skills = \<lparr>hasRelevantSkills = True, hasTechnicalSkills = True, sk_count = 5,
                     sk_score = 70\<rparr>,
      res_engagement = \<lparr>hasRecentActivity = True, hasRecommendations = True,
                         connectionCount = 250, en_score = 80\<rparr>\<rparr>"
  by code_simp


lemma rich_text_not_blank: "\<not> trim_is_empty rich_text"
  by code_simp

lemma rounded_values:
  "Math_round (cv_weighted 20 0 0 40) = 13"
  "Math_round (cv_weighted 45 25 30 90) = 43"
  "Math_round (cv_weighted 90 0 0 0) = 31"
  "Math_round (li_weighted 70 30 55 70 80) = 57"
  "Math_round (li_weighted 100 50 55 70 80) = 70"
  by code_simp+

lemma spec_values:
  "spec_cv_composite 20 0 0 40 = 13"
  "spec_cv_composite 90 0 0 0 = 32"
  "spec_li_composite 70 30 55 70 80 = 57"
  "\<not> near_tie (exact_cv_sum 20 0 0 40)"
  "\<not> near_tie (exact_li_sum 70 30 55 70 80)"
  by code_simp+

text \<open>
  Two weighted sums at a tie: 10 times the binary64 weight 0.35 rounds to 3.5 exactly,
  90 times it to the binary64 value next below 31.5.
\<close>

lemma tie_values:
  "cv_weighted 10 0 0 0 = 7 / 2"
  "Math_round (cv_weighted 10 0 0 0) = 4"
  "spec_cv_composite 10 0 0 0 = 4"
  "cv_weighted 90 0 0 0 = 63 / 2 - 1 / 2 ^ 48"
  "exact_cv_sum 90 0 0 0 = 63 / 2"
  by code_simp+

section \<open>The composite score of a document\<close>

lemma calculateATSScore_sets:
  "snd (calculateATSScore d) = d\<lparr>atsScore := fst (calculateATSScore d)\<rparr>"
  by (simp add: calculateATSScore_def Let_def split: prod.splits)


lemma calculateATSScore_value:
  "cv_scores (analysis d) = (k, f, c, t) \<Longrightarrow>
     fst (calculateATSScore d) = Math_round (cv_weighted k f c t)"
  by (simp add: calculateATSScore_def Let_def)

lemma calculateOptimizationScore_value:
  "li_scores (li_an l) = (h, s, e, k, g) \<Longrightarrow>
     fst (calculateOptimizationScore l) = Math_round (li_weighted h s e k g)"
  by (simp add: calculateOptimizationScore_def Let_def)

lemma exact_cv_sum_nonneg:
  "0 \<le> k \<Longrightarrow> 0 \<le> f \<Longrightarrow> 0 \<le> c \<Longrightarrow> 0 \<le> t \<Longrightarrow> 0 \<le> exact_cv_sum k f c t"
  by (simp add: exact_cv_sum_def)

lemma exact_li_sum_nonneg:
  "0 \<le> h \<Longrightarrow> 0 \<le> s \<Longrightarrow> 0 \<le> e \<Longrightarrow> 0 \<le> k \<Longrightarrow> 0 \<le> g \<Longrightarrow> 0 \<le> exact_li_sum h s e k g"
  by (simp add: exact_li_sum_def)

lemma fl64_zero: "fl64 0 = 0"
  by (simp add: fl64_def)

lemma Math_round_zero: "Math_round 0 = 0"
  unfolding Math_round_def by linarith

lemma no_analysis_scores_zero:
  "fst (calculateATSScore (d\<lparr>analysis := no_analysis\<rparr>)) = 0"
  by (simp add: calculateATSScore_def cv_scores_def no_analysis_def score_or0_def
      cv_weighted_def dmul_def dadd_def fl64_zero Math_round_zero Let_def)

lemma no_li_analysis_scores_zero:
  "fst (calculateOptimizationScore (l\<lparr>li_an := no_li_analysis\<rparr>)) = 0"
  by (simp add: calculateOptimizationScore_def li_scores_def no_li_analysis_def score_or0_def
      li_weighted_def dmul_def dadd_def fl64_zero Math_round_zero Let_def)

lemma cv_scores_missing:
  assumes "cv_scores an = (k, f, c, t)"
  shows "(an_keywords an = None \<longrightarrow> k = 0) \<and> (an_formatting an = None \<longrightarrow> f = 0)
       \<and> (an_content an = None \<longrightarrow> c = 0) \<and> (an_technical an = None \<longrightarrow> t = 0)"
  using assms by (auto simp: cv_scores_def score_or0_def)

lemma li_scores_missing:
  assumes "li_scores an = (h, s, e, k, g)"
  shows "(an_headline an = None \<longrightarrow> h = 0) \<and> (an_summary an = None \<longrightarrow> s = 0)
       \<and> (an_experience an = None \<longrightarrow> e = 0) \<and> (an_skills an = None \<longrightarrow> k = 0)
       \<and> (an_engagement an = None \<longrightarrow> g = 0)"
  using assms by (auto simp: li_scores_def score_or0_def)

lemma cv_composite_main:
  assumes "cv_scores (analysis d) = (k, f, c, t)"
    and "0 \<le> k \<and> k \<le> 100 \<and> 0 \<le> f \<and> f \<le> 100 \<and> 0 \<le> c \<and> c \<le> 100 \<and> 0 \<le> t \<and> t \<le> 100"
  shows "\<bar>of_int (fst (calculateATSScore d)) - exact_cv_sum k f c t\<bar> \<le> 1/2 + 1 / 2 ^ 40"
    and "\<not> near_tie (exact_cv_sum k f c t) \<Longrightarrow>
           fst (calculateATSScore d) = spec_cv_composite k f c t"
proof -
  have err: "\<bar>cv_weighted k f c t - exact_cv_sum k f c t\<bar> \<le> 1 / 2 ^ 40"
    using assms(2) by (intro cv_weighted_err) simp_all
  have nn: "0 \<le> exact_cv_sum k f c t"
    using assms(2) by (intro exact_cv_sum_nonneg) simp_all
  show "\<bar>of_int (fst (calculateATSScore d)) - exact_cv_sum k f c t\<bar> \<le> 1/2 + 1 / 2 ^ 40"
    using Math_round_within [OF err] by (simp only: calculateATSScore_value [OF assms(1)])
  show "fst (calculateATSScore d) = spec_cv_composite k f c t"
    if "\<not> near_tie (exact_cv_sum k f c t)"
    using Math_round_close [OF err nn that]
    by (simp only: calculateATSScore_value [OF assms(1)] spec_cv_composite_def)
qed

lemma li_composite_main:
  assumes "li_scores (li_an l) = (h, s, e, k, g)"
    and "0 \<le> h \<and> h \<le> 100 \<and> 0 \<le> s \<and> s \<le> 100 \<and> 0 \<le> e \<and> e \<le> 100
       \<and> 0 \<le> k \<and> k \<le> 100 \<and> 0 \<le> g \<and> g \<le> 100"
  shows "\<bar>of_int (fst (calculateOptimizationScore l)) - exact_li_sum h s e k g\<bar> \<le> 1/2 + 1 / 2 ^ 40"
    and "\<not> near_tie (exact_li_sum h s e k g) \<Longrightarrow>
           fst (calculateOptimizationScore l) = spec_li_composite h s e k g"
proof -
  have err: "\<bar>li_weighted h s e k g - exact_li_sum h s e k g\<bar> \<le> 1 / 2 ^ 40"
    using assms(2) by (intro li_weighted_err) simp_all
  have nn: "0 \<le> exact_li_sum h s e k g"
    using assms(2) by (intro exact_li_sum_nonneg) simp_all
  show "\<bar>of_int (fst (calculateOptimizationScore l)) - exact_li_sum h s e k g\<bar> \<le> 1/2 + 1 / 2 ^ 40"
    using Math_round_within [OF err] by (simp only: calculateOptimizationScore_value [OF assms(1)])
  show "fst (calculateOptimizationScore l) = spec_li_composite h s e k g"
    if "\<not> near_tie (exact_li_sum h s e k g)"
    using Math_round_close [OF err nn that]
    by (simp only: calculateOptimizationScore_value [OF assms(1)] spec_li_composite_def)
qed

lemma whole_cv_scores_not_near_tie:
  assumes "(35 * K + 25 * F + 25 * C + 15 * T) mod 100 \<noteq> (50::int)"
  shows "\<not> near_tie (exact_cv_sum (of_int K) (of_int F) (of_int C) (of_int T))"
  using hundredths_not_near_tie [OF assms] by (simp add: exact_cv_sum_def)

lemma whole_li_scores_not_near_tie:
  assumes "(25 * H + 25 * S + 25 * E + 15 * K + 10 * G) mod 100 \<noteq> (50::int)"
  shows "\<not> near_tie (exact_li_sum (of_int H) (of_int S) (of_int E) (of_int K) (of_int G))"
  using hundredths_not_near_tie [OF assms] by (simp add: exact_li_sum_def)

lemma weights_nonneg: "0 \<le> w_035" "0 \<le> w_025" "0 \<le> w_015" "0 \<le> w_010"
  by (simp_all add: w_035_val w_025_val w_015_val w_010_val)

lemma cv_weighted_nonneg:
  assumes "0 \<le> k" "0 \<le> f" "0 \<le> c" "0 \<le> t"
  shows "0 \<le> cv_weighted k f c t"
  unfolding cv_weighted_def dadd_def dmul_def
  using assms weights_nonneg
  by (intro fl64_nonneg add_nonneg_nonneg mult_nonneg_nonneg)

lemma li_weighted_nonneg:
  assumes "0 \<le> h" "0 \<le> s" "0 \<le> e" "0 \<le> k" "0 \<le> g"
  shows "0 \<le> li_weighted h s e k g"
  unfolding li_weighted_def dadd_def dmul_def
  using assms weights_nonneg
  by (intro fl64_nonneg add_nonneg_nonneg mult_nonneg_nonneg)

text \<open>On a value that is not negative \<open>Math.round\<close> is the specified rounding.\<close>

lemma Math_round_nonneg: "0 \<le> x \<Longrightarrow> Math_round x = spec_round x"
  by (simp add: Math_round_def spec_round_def)

lemma calculateATSScore_eq:
  "cv_scores (analysis d) = (k, f, c, t) \<Longrightarrow>
     calculateATSScore d
       = (Math_round (cv_weighted k f c t), d\<lparr>atsScore := Math_round (cv_weighted k f c t)\<rparr>)"
  by (simp add: calculateATSScore_def Let_def)

lemma calculateOptimizationScore_eq:
  "li_scores (li_an l) = (h, s, e, k, g) \<Longrightarrow>
     calculateOptimizationScore l
       = (Math_round (li_weighted h s e k g),
          l\<lparr>optimizationScore := Math_round (li_weighted h s e k g)\<rparr>)"
  by (simp add: calculateOptimizationScore_def Let_def)

text \<open>
  C1 (as amended). \<open>calculateATSScore\<close> and \<open>calculateOptimizationScore\<close> set and return
  \<open>Math.round\<close> (to the nearest integer, a tie towards plus infinity) of the weighted sum
  as binary64 arithmetic evaluates it, an absent sub-score counting as 0, so that a
  document with no sub-scores scores 0. For sub-scores that are not negative this is the
  specified rounding, a tie away from zero, of that binary64 sum. For sub-scores in
  \<open>[0, 100]\<close> it is also the specified rounding of the exact weighted sum whenever that sum
  is not within \<open>2^-40\<close> of a tie, which for whole sub-scores means whenever the sum of the
  weighted hundredths is not 50 modulo 100; in every case it differs from the exact sum
  by at most a half and \<open>2^-40\<close>.
\<close>

theorem composite_scores:
  assumes "cv_scores (analysis d) = (k, f, c, t)"
    and "li_scores (li_an l) = (h, s, e, sk, g)"
  shows "calculateATSScore d
           = (Math_round (cv_weighted k f c t),
              d\<lparr>atsScore := Math_round (cv_weighted k f c t)\<rparr>)
       \<and> calculateOptimizationScore l
           = (Math_round (li_weighted h s e sk g),
              l\<lparr>optimizationScore := Math_round (li_weighted h s e sk g)\<rparr>)
       \<and> (0 \<le> k \<and> 0 \<le> f \<and> 0 \<le> c \<and> 0 \<le> t
            \<longrightarrow> fst (calculateATSScore d) = spec_round (cv_weighted k f c t))
       \<and> (0 \<le> h \<and> 0 \<le> s \<and> 0 \<le> e \<and> 0 \<le> sk \<and> 0 \<le> g
            \<longrightarrow> fst (calculateOptimizationScore l) = spec_round (li_weighted h s e sk g))
       \<and> (0 \<le> k \<and> k \<le> 100 \<and> 0 \<le> f \<and> f \<le> 100 \<and> 0 \<le> c \<and> c \<le> 100 \<and> 0 \<le> t \<and> t \<le> 100
            \<longrightarrow> (\<not> near_tie (exact_cv_sum k f c t)
                   \<longrightarrow> fst (calculateATSScore d) = spec_cv_composite k f c t)
               \<and> (\<forall>K F C T. k = of_int K \<and> f = of_int F \<and> c = of_int C \<and> t = of_int T
                      \<and> (35 * K + 25 * F + 25 * C + 15 * T) mod 100 \<noteq> 50
                    \<longrightarrow> fst (calculateATSScore d) = spec_cv_composite k f c t)
               \<and> \<bar>of_int (fst (calculateATSScore d)) - exact_cv_sum k f c t\<bar>
                   \<le> 1/2 + 1 / 2 ^ 40)
       \<and> (0 \<le> h \<and> h \<le> 100 \<and> 0 \<le> s \<and> s \<le> 100 \<and> 0 \<le> e \<and> e \<le> 100
              \<and> 0 \<le> sk \<and> sk \<le> 100 \<and> 0 \<le> g \<and> g \<le> 100
            \<longrightarrow> (\<not> near_tie (exact_li_sum h s e sk g)
                   \<longrightarrow> fst (calculateOptimizationScore l) = spec_li_composite h s e sk g)
               \<and> (\<forall>H S E K G. h = of_int H \<and> s = of_int S \<and> e = of_int E \<and> sk = of_int K
                      \<and> g = of_int G
                      \<and> (25 * H + 25 * S + 25 * E + 15 * K + 10 * G) mod 100 \<noteq> 50
                    \<longrightarrow> fst (calculateOptimizationScore l) = spec_li_composite h s e sk g)
               \<and> \<bar>of_int (fst (calculateOptimizationScore l)) - exact_li_sum h s e sk g\<bar>
                   \<le> 1/2 + 1 / 2 ^ 40)
       \<and> (an_keywords (analysis d) = None \<longrightarrow> k = 0)
       \<and> (an_formatting (analysis d) = None \<longrightarrow> f = 0)
       \<and> (an_content (analysis d) = None \<longrightarrow> c = 0)
       \<and> (an_technical (analysis d) = None \<longrightarrow> t = 0)
       \<and> (an_headline (li_an l) = None \<longrightarrow> h = 0)
       \<and> (an_summary (li_an l) = None \<longrightarrow> s = 0)
       \<and> (an_experience (li_an l) = None \<longrightarrow> e = 0)
       \<and> (an_skills (li_an l) = None \<longrightarrow> sk = 0)
       \<and> (an_engagement (li_an l) = None \<longrightarrow> g = 0)
       \<and> fst (calculateATSScore (d\<lparr>analysis := no_analysis\<rparr>)) = 0
       \<and> fst (calculateOptimizationScore (l\<lparr>li_an := no_li_analysis\<rparr>)) = 0"
proof -
  have v1: "fst (calculateATSScore d) = Math_round (cv_weighted k f c t)"
    by (rule calculateATSScore_value [OF assms(1)])
  have v2: "fst (calculateOptimizationScore l) = Math_round (li_weighted h s e sk g)"
    by (rule calculateOptimizationScore_value [OF assms(2)])
  have n1: "fst (calculateATSScore d) = spec_round (cv_weighted k f c t)"
    if "0 \<le> k \<and> 0 \<le> f \<and> 0 \<le> c \<and> 0 \<le> t"
    using that v1 Math_round_nonneg [OF cv_weighted_nonneg [of k f c t]] by simp
  have n2: "fst (calculateOptimizationScore l) = spec_round (li_weighted h s e sk g)"
    if "0 \<le> h \<and> 0 \<le> s \<and> 0 \<le> e \<and> 0 \<le> sk \<and> 0 \<le> g"
    using that v2 Math_round_nonneg [OF li_weighted_nonneg [of h s e sk g]] by simp
  have c5: "0 \<le> k \<and> k \<le> 100 \<and> 0 \<le> f \<and> f \<le> 100 \<and> 0 \<le> c \<and> c \<le> 100 \<and> 0 \<le> t \<and> t \<le> 100
      \<longrightarrow> (\<not> near_tie (exact_cv_sum k f c t)
             \<longrightarrow> fst (calculateATSScore d) = spec_cv_composite k f c t)
          \<and> (\<forall>K F C T. k = of_int K \<and> f = of_int F \<and> c = of_int C \<and> t = of_int T
                 \<and> (35 * K + 25 * F + 25 * C + 15 * T) mod 100 \<noteq> 50
               \<longrightarrow> fst (calculateATSScore d) = spec_cv_composite k f c t)
          \<and> \<bar>of_int (fst (calculateATSScore d)) - exact_cv_sum k f c t\<bar> \<le> 1/2 + 1 / 2 ^ 40"
  proof (rule impI)
    assume r: "0 \<le> k \<and> k \<le> 100 \<and> 0 \<le> f \<and> f \<le> 100 \<and> 0 \<le> c \<and> c \<le> 100 \<and> 0 \<le> t \<and> t \<le> 100"
    note cv = cv_composite_main [OF assms(1) r]
    have "fst (calculateATSScore d) = spec_cv_composite k f c t"
      if "k = of_int K \<and> f = of_int F \<and> c = of_int C \<and> t = of_int T
          \<and> (35 * K + 25 * F + 25 * C + 15 * T) mod 100 \<noteq> 50" for K F C T
      using that cv(2) whole_cv_scores_not_near_tie [of K F C T] by blast
    with cv show "(\<not> near_tie (exact_cv_sum k f c t)
             \<longrightarrow> fst (calculateATSScore d) = spec_cv_composite k f c t)
          \<and> (\<forall>K F C T. k = of_int K \<and> f = of_int F \<and> c = of_int C \<and> t = of_int T
                 \<and> (35 * K + 25 * F + 25 * C + 15 * T) mod 100 \<noteq> 50
               \<longrightarrow> fst (calculateATSScore d) = spec_cv_composite k f c t)
          \<and> \<bar>of_int (fst (calculateATSScore d)) - exact_cv_sum k f c t\<bar> \<le> 1/2 + 1 / 2 ^ 40"
      by blast
  qed
  have c6: "0 \<le> h \<and> h \<le> 100 \<and> 0 \<le> s \<and> s \<le> 100 \<and> 0 \<le> e \<and> e \<le> 100
        \<and> 0 \<le> sk \<and> sk \<le> 100 \<and> 0 \<le> g \<and> g \<le> 100
      \<longrightarrow> (\<not> near_tie (exact_li_sum h s e sk g)
             \<longrightarrow> fst (calculateOptimizationScore l) = spec_li_composite h s e sk g)
          \<and> (\<forall>H S E K G. h = of_int H \<and> s = of_int S \<and> e = of_int E \<and> sk = of_int K
                 \<and> g = of_int G
                 \<and> (25 * H + 25 * S + 25 * E + 15 * K + 10 * G) mod 100 \<noteq> 50
               \<longrightarrow> fst (calculateOptimizationScore l) = spec_li_composite h s e sk g)
          \<and> \<bar>of_int (fst (calculateOptimizationScore l)) - exact_li_sum h s e sk g\<bar>
              \<le> 1/2 + 1 / 2 ^ 40"
  proof (rule impI)
    assume r: "0 \<le> h \<and> h \<le> 100 \<and> 0 \<le> s \<and> s \<le> 100 \<and> 0 \<le> e \<and> e \<le> 100
         \<and> 0 \<le> sk \<and> sk \<le> 100 \<and> 0 \<le> g \<and> g \<le> 100"
    note li = li_composite_main [OF assms(2) r]
    have "fst (calculateOptimizationScore l) = spec_li_composite h s e sk g"
      if "h = of_int H \<and> s = of_int S \<and> e = of_int E \<and> sk = of_int K \<and> g = of_int G
          \<and> (25 * H + 25 * S + 25 * E + 15 * K + 10 * G) mod 100 \<noteq> 50" for H S E K G
      using that li(2) whole_li_scores_not_near_tie [of H S E K G] by blast
    with li show "(\<not> near_tie (exact_li_sum h s e sk g)
             \<longrightarrow> fst (calculateOptimizationScore l) = spec_li_composite h s e sk g)
          \<and> (\<forall>H S E K G. h = of_int H \<and> s = of_int S \<and> e = of_int E \<and> sk = of_int K
                 \<and> g = of_int G
                 \<and> (25 * H + 25 * S + 25 * E + 15 * K + 10 * G) mod 100 \<noteq> 50
               \<longrightarrow> fst (calculateOptimizationScore l) = spec_li_composite h s e sk g)
          \<and> \<bar>of_int (fst (calculateOptimizationScore l)) - exact_li_sum h s e sk g\<bar>
              \<le> 1/2 + 1 / 2 ^ 40"
      by blast
  qed
  have c3: "0 \<le> k \<and> 0 \<le> f \<and> 0 \<le> c \<and> 0 \<le> t
              \<longrightarrow> fst (calculateATSScore d) = spec_round (cv_weighted k f c t)"
    using n1 by (rule impI)
  have c4: "0 \<le> h \<and> 0 \<le> s \<and> 0 \<le> e \<and> 0 \<le> sk \<and> 0 \<le> g
              \<longrightarrow> fst (calculateOptimizationScore l) = spec_round (li_weighted h s e sk g)"
    using n2 by (rule impI)
  note m1 = cv_scores_missing [OF assms(1)]
  note m2 = li_scores_missing [OF assms(2)]
  show ?thesis
    by (intro conjI calculateATSScore_eq [OF assms(1)]
        calculateOptimizationScore_eq [OF assms(2)]
        c3 c4 c5 c6
        m1 [THEN conjunct1] m1 [THEN conjunct2, THEN conjunct1]
        m1 [THEN conjunct2, THEN conjunct2, THEN conjunct1]
        m1 [THEN conjunct2, THEN conjunct2, THEN conjunct2]
        m2 [THEN conjunct1] m2 [THEN conjunct2, THEN conjunct1]
        m2 [THEN conjunct2, THEN conjunct2, THEN conjunct1]
        m2 [THEN conjunct2, THEN conjunct2, THEN conjunct2, THEN conjunct1]
        m2 [THEN conjunct2, THEN conjunct2, THEN conjunct2, THEN conjunct2]
        no_analysis_scores_zero no_li_analysis_scores_zero)
qed

lemma cv_scores_stored:
  "cv_scores (stored_analysis r) =
     (kw_score (res_keywords r), fmt_score (res_formatting r), content_score (res_content r),
      tech_score (res_technical r))"
  by (simp add: cv_scores_def stored_analysis_def score_or0_def)

lemma li_scores_stored:
  "li_scores (stored_li_analysis r) =
     (hl_score (res_headline r), sm_score (res_summary r), ex_score (res_experience r),
      sk_score (res_skills r), en_score (res_engagement r))"
  by (simp add: li_scores_def stored_li_analysis_def score_or0_def)

lemma rich_cv_scores:
  "cv_scores (analysis (analysed_cv_doc rich_text)) = (20, 0, 0, 40)"
  by (simp add: analysed_cv_doc_def cv_scores_stored rich_analysis_val)

lemma mock_li_scores:
  "li_scores (li_an (analysed_li_doc mock_profile)) = (70, 30, 55, 70, 80)"
  by (simp add: analysed_li_doc_def li_scores_stored mock_analysis_val)

lemma half_cv_scores:
  "cv_scores (analysis (analysed_cv_doc half_text)) = (10, 0, 0, 0)"
  by (simp add: analysed_cv_doc_def cv_scores_stored half_analysis_scores)

text \<open>
  The r\'esum\'e \<open>rich_text\<close> and the profile \<open>mock_profile\<close>, whose exact weighted sums
  are 13 and 57.25, and the r\'esum\'e \<open>half_text\<close>, whose binary64 sum is the tie 3.5 and
  is rounded up to 4.
\<close>

theorem composite_scores_witness:
  "cv_scores (analysis (analysed_cv_doc rich_text)) = (20, 0, 0, 40)
   \<and> li_scores (li_an (analysed_li_doc mock_profile)) = (70, 30, 55, 70, 80)
   \<and> fst (calculateATSScore (analysed_cv_doc rich_text)) = 13
   \<and> atsScore (snd (calculateATSScore (analysed_cv_doc rich_text))) = 13
   \<and> spec_round (cv_weighted 20 0 0 40) = 13
   \<and> spec_cv_composite 20 0 0 40 = 13
   \<and> fst (calculateOptimizationScore (analysed_li_doc mock_profile)) = 57
   \<and> optimizationScore (snd (calculateOptimizationScore (analysed_li_doc mock_profile))) = 57
   \<and> spec_round (li_weighted 70 30 55 70 80) = 57
   \<and> spec_li_composite 70 30 55 70 80 = 57
   \<and> cv_scores (analysis (analysed_cv_doc half_text)) = (10, 0, 0, 0)
   \<and> cv_weighted 10 0 0 0 = 7 / 2
   \<and> fst (calculateATSScore (analysed_cv_doc half_text)) = 4
   \<and> spec_cv_composite 10 0 0 0 = 4"
proof -
  note a = composite_scores [OF rich_cv_scores mock_li_scores]
  note b = composite_scores [OF half_cv_scores mock_li_scores]
  have e1: "fst (calculateATSScore (analysed_cv_doc rich_text)) = 13"
    and e2: "atsScore (snd (calculateATSScore (analysed_cv_doc rich_text))) = 13"
    using a [THEN conjunct1] by (simp_all add: rounded_values)
  have e3: "fst (calculateOptimizationScore (analysed_li_doc mock_profile)) = 57"
    and e4: "optimizationScore (snd (calculateOptimizationScore (analysed_li_doc mock_profile)))
               = 57"
    using a [THEN conjunct2, THEN conjunct1] by (simp_all add: rounded_values)
  have f1: "fst (calculateATSScore (analysed_cv_doc rich_text))
              = spec_round (cv_weighted 20 0 0 40)"
    using a [THEN conjunct2, THEN conjunct2, THEN conjunct1] by simp
  have f3: "fst (calculateOptimizationScore (analysed_li_doc mock_profile))
              = spec_round (li_weighted 70 30 55 70 80)"
    using a [THEN conjunct2, THEN conjunct2, THEN conjunct2, THEN conjunct1] by simp
  have g1: "spec_round (cv_weighted 20 0 0 40) = 13"
    using e1 by (simp only: f1)
  have g3: "spec_round (li_weighted 70 30 55 70 80) = 57"
    using e3 by (simp only: f3)
  have h: "fst (calculateATSScore (analysed_cv_doc half_text)) = 4"
    using b [THEN conjunct1] by (simp add: tie_values(2))
  show ?thesis
    by (intro conjI rich_cv_scores mock_li_scores e1 e2 g1 spec_values(1) e3 e4 g3
        spec_values(3) half_cv_scores tie_values(1) h tie_values(3))
qed

lemma tie_cv_scores:
  "cv_scores (analysis (analysed_cv_doc tie_text)) = (90, 0, 0, 0)"
  by (simp add: analysed_cv_doc_def cv_scores_stored tie_analysis_val)

text \<open>
  The r\'esum\'e text \<open>tie_text\<close> holds eighteen catalogue keywords and nothing else that
  a scorer credits: its sub-scores are 90, 0, 0 and 0, the exact weighted sum is 31.5,
  the specified rounding of it gives 32, and \<open>calculateATSScore\<close> returns 31, because the
  binary64 product of 90 and 0.35 is the binary64 value next below 31.5.
\<close>

theorem composite_tie_counterexample:
  "cv_scores (analysis (analysed_cv_doc tie_text)) = (90, 0, 0, 0)
   \<and> exact_cv_sum 90 0 0 0 = 63 / 2
   \<and> spec_cv_composite 90 0 0 0 = 32
   \<and> cv_weighted 90 0 0 0 = 63 / 2 - 1 / 2 ^ 48
   \<and> fst (calculateATSScore (analysed_cv_doc tie_text)) = 31
   \<and> fst (calculateATSScore (analysed_cv_doc tie_text)) \<noteq> spec_cv_composite 90 0 0 0"
proof -
  have r: "fst (calculateATSScore (analysed_cv_doc tie_text)) = 31"
    by (simp only: calculateATSScore_value [OF tie_cv_scores] rounded_values(3))
  have ne: "fst (calculateATSScore (analysed_cv_doc tie_text)) \<noteq> spec_cv_composite 90 0 0 0"
    unfolding r spec_values(2) by simp
  show ?thesis
    by (intro conjI tie_cv_scores tie_values(5) spec_values(2) tie_values(4) r ne)
qed

section \<open>The category scorers\<close>

lemma Math_min_range: "0 \<le> x \<Longrightarrow> 0 \<le> Math_min 100 x \<and> Math_min 100 x \<le> 100"
  by (simp add: Math_min_def)

lemma ratio_score_nonneg: "0 \<le> dmul (ddiv (of_nat n) d) 100" if "0 < d"
proof -
  have "0 \<le> ddiv (of_nat n) d"
    using that unfolding ddiv_def by (intro fl64_nonneg) simp
  then show ?thesis
    unfolding dmul_def by (intro fl64_nonneg) simp
qed

lemma flags3_range:
  fixes p q r :: rat
  assumes "0 \<le> p" "0 \<le> q" "0 \<le> r" "p + q + r \<le> 100"
  shows "0 \<le> (if a then p else 0) + (if b then q else 0) + (if c then r else 0)
       \<and> (if a then p else 0) + (if b then q else 0) + (if c then r else 0) \<le> 100"
proof -
  have "0 \<le> (if a then p else 0) \<and> (if a then p else 0) \<le> p" using assms by simp
  moreover have "0 \<le> (if b then q else 0) \<and> (if b then q else 0) \<le> q" using assms by simp
  moreover have "0 \<le> (if c then r else 0) \<and> (if c then r else 0) \<le> r" using assms by simp
  ultimately show ?thesis using assms(4) by linarith
qed

lemma flags4_range:
  fixes p q r s :: rat
  assumes "0 \<le> p" "0 \<le> q" "0 \<le> r" "0 \<le> s" "p + q + r + s \<le> 100"
  shows "0 \<le> (if a then p else 0) + (if b then q else 0) + (if c then r else 0)
              + (if d then s else 0)
       \<and> (if a then p else 0) + (if b then q else 0) + (if c then r else 0)
              + (if d then s else 0) \<le> 100"
proof -
  have "0 \<le> (if a then p else 0) \<and> (if a then p else 0) \<le> p" using assms by simp
  moreover have "0 \<le> (if b then q else 0) \<and> (if b then q else 0) \<le> q" using assms by simp
  moreover have "0 \<le> (if c then r else 0) \<and> (if c then r else 0) \<le> r" using assms by simp
  moreover have "0 \<le> (if d then s else 0) \<and> (if d then s else 0) \<le> s" using assms by simp
  ultimately show ?thesis using assms(5) by linarith
qed

lemma analyzeKeywords_score:
  "\<exists>n. kw_score (analyzeKeywords text) = Math_min 100 (dmul (ddiv (of_nat n) 20) 100)"
  unfolding analyzeKeywords_def Let_def kw_facts.select_convs by (rule exI, rule refl)

lemma analyzeKeywords_range:
  "0 \<le> kw_score (analyzeKeywords text) \<and> kw_score (analyzeKeywords text) \<le> 100"
proof -
  obtain n where "kw_score (analyzeKeywords text) = Math_min 100 (dmul (ddiv (of_nat n) 20) 100)"
    using analyzeKeywords_score by blast
  then show ?thesis
    using Math_min_range [OF ratio_score_nonneg [of 20 n]] by simp
qed

lemma analyzeFormatting_range:
  "0 \<le> fmt_score (analyzeFormatting text) \<and> fmt_score (analyzeFormatting text) \<le> 100"
  unfolding analyzeFormatting_def Let_def fmt_facts.select_convs
  by (rule flags4_range) simp_all

lemma analyzeContent_range:
  "0 \<le> content_score (analyzeContent text) \<and> content_score (analyzeContent text) \<le> 100"
  unfolding analyzeContent_def Let_def content_facts.select_convs
  by (rule flags4_range) simp_all

lemma analyzeTechnicalSkills_score:
  "\<exists>n. tech_score (analyzeTechnicalSkills text) = Math_min 100 (dmul (ddiv (of_nat n) 10) 100)"
  unfolding analyzeTechnicalSkills_def Let_def tech_facts.select_convs by (rule exI, rule refl)

lemma analyzeTechnicalSkills_range:
  "0 \<le> tech_score (analyzeTechnicalSkills text) \<and> tech_score (analyzeTechnicalSkills text) \<le> 100"
proof -
  obtain n where
    "tech_score (analyzeTechnicalSkills text) = Math_min 100 (dmul (ddiv (of_nat n) 10) 100)"
    using analyzeTechnicalSkills_score by blast
  then show ?thesis
    using Math_min_range [OF ratio_score_nonneg [of 10 n]] by simp
qed

lemma analyzeHeadline_range:
  "0 \<le> hl_score (analyzeHeadline h) \<and> hl_score (analyzeHeadline h) \<le> 100"
  unfolding analyzeHeadline_def Let_def headline_facts.select_convs
  by (rule flags3_range) simp_all

lemma analyzeSummary_range:
  "0 \<le> sm_score (analyzeSummary s) \<and> sm_score (analyzeSummary s) \<le> 100"
  unfolding analyzeSummary_def Let_def summary_facts.select_convs
  by (rule flags4_range) simp_all

lemma analyzeExperience_range:
  "0 \<le> ex_score (analyzeExperience ex) \<and> ex_score (analyzeExperience ex) \<le> 100"
  unfolding analyzeExperience_def Let_def experience_facts.select_convs
  by (rule flags4_range) simp_all

lemma analyzeSkills_range:
  "0 \<le> sk_score (analyzeSkills sk) \<and> sk_score (analyzeSkills sk) \<le> 100"
  unfolding analyzeSkills_def Let_def skills_facts.select_convs
  by (rule flags3_range) simp_all

lemma analyzeEngagement_score:
  "en_score (analyzeEngagement pd) =
     60 + (if (case connections pd of None \<Rightarrow> 0 | Some n \<Rightarrow> n) \<ge> 500 then 40
           else if (case connections pd of None \<Rightarrow> 0 | Some n \<Rightarrow> n) \<ge> 100 then 20 else 0)"
  unfolding analyzeEngagement_def Let_def engagement_facts.select_convs by simp

lemma analyzeEngagement_range:
  "60 \<le> en_score (analyzeEngagement pd) \<and> en_score (analyzeEngagement pd) \<le> 100"
  unfolding analyzeEngagement_score by simp

lemma performATSAnalysis_empty:
  "performATSAnalysis [] =
     \<lparr>res_keywords = \<lparr>kw_found = [], kw_missing = take 10 commonTechKeywords, kw_score = 0\<rparr>,
      res_formatting = \<lparr>hasProperSections = False, hasContactInfo = False,
                        hasSkillsSection = False, hasExperienceSection = False, fmt_score = 0\<rparr>,
      res_content = \<lparr>hasQuantifiableAchievements = False, hasRelevantExperience = False,
                      hasEducationSection = False, wordCount = 1, content_score = 0\<rparr>,
      res_technical = \<lparr>programmingLanguages = [], frameworks = [], tools = [], databases = [],
                        tech_score = 0\<rparr>\<rparr>"
  by code_simp

lemma performLinkedInAnalysis_empty:
  "performLinkedInAnalysis empty_profile =
     \<lparr>res_headline = \<lparr>hl_hasKeywords = False, isCompelling = False, hl_length = 0, hl_score = 0\<rparr>,
      res_summary = \<lparr>hasCallToAction = False, sm_hasKeywords = False, hasAchievements = False,
                      sm_length = 0, sm_score = 0\<rparr>,
      res_experience = \<lparr>hasQuantifiableResults = False, hasRelevantKeywords = False,
                         isWellStructured = False, ex_count = 0, ex_score = 0\<rparr>,
      res_skills = \<lparr>hasRelevantSkills = False, hasTechnicalSkills = False, sk_count = 0,
                     sk_score = 0\<rparr>,
      res_engagement = \<lparr>hasRecentActivity = True, hasRecommendations = True,
                         connectionCount = 0, en_score = 60\<rparr>\<rparr>"
  by code_simp

lemma empty_is_lowest_cv:
  "kw_score (res_keywords (performATSAnalysis [])) \<le> kw_score (analyzeKeywords text)
   \<and> fmt_score (res_formatting (performATSAnalysis [])) \<le> fmt_score (analyzeFormatting text)
   \<and> content_score (res_content (performATSAnalysis [])) \<le> content_score (analyzeContent text)
   \<and> tech_score (res_technical (performATSAnalysis [])) \<le> tech_score (analyzeTechnicalSkills text)"
  using analyzeKeywords_range [of "text"] analyzeFormatting_range [of "text"]
    analyzeContent_range [of "text"] analyzeTechnicalSkills_range [of "text"]
  by (simp add: performATSAnalysis_empty)

lemma empty_is_lowest_li:
  "hl_score (res_headline (performLinkedInAnalysis empty_profile)) \<le> hl_score (analyzeHeadline h)
   \<and> sm_score (res_summary (performLinkedInAnalysis empty_profile)) \<le> sm_score (analyzeSummary s)
   \<and> ex_score (res_experience (performLinkedInAnalysis empty_profile)) \<le> ex_score (analyzeExperience ex)
   \<and> sk_score (res_skills (performLinkedInAnalysis empty_profile)) \<le> sk_score (analyzeSkills sk)
   \<and> en_score (res_engagement (performLinkedInAnalysis empty_profile)) \<le> en_score (analyzeEngagement pd)"
  using analyzeHeadline_range [of h] analyzeSummary_range [of s] analyzeExperience_range [of ex]
    analyzeSkills_range [of sk] analyzeEngagement_range [of pd]
  by (simp add: performLinkedInAnalysis_empty)

text \<open>
  C5. Each of the nine category scorers is a function of its input alone and returns a
  score between 0 and 100 for every input. The empty r\'esum\'e text gives every fact
  false, no keyword found and every sub-score 0, the profile with every field absent
  gives the facts shown, and no input scores lower than the empty one in any category.
\<close>

theorem scorers_in_range:
  "(0 \<le> kw_score (analyzeKeywords text) \<and> kw_score (analyzeKeywords text) \<le> 100)
   \<and> (0 \<le> fmt_score (analyzeFormatting text) \<and> fmt_score (analyzeFormatting text) \<le> 100)
   \<and> (0 \<le> content_score (analyzeContent text) \<and> content_score (analyzeContent text) \<le> 100)
   \<and> (0 \<le> tech_score (analyzeTechnicalSkills text)
        \<and> tech_score (analyzeTechnicalSkills text) \<le> 100)
   \<and> (0 \<le> hl_score (analyzeHeadline h) \<and> hl_score (analyzeHeadline h) \<le> 100)
   \<and> (0 \<le> sm_score (analyzeSummary s) \<and> sm_score (analyzeSummary s) \<le> 100)
   \<and> (0 \<le> ex_score (analyzeExperience ex) \<and> ex_score (analyzeExperience ex) \<le> 100)
   \<and> (0 \<le> sk_score (analyzeSkills sk) \<and> sk_score (analyzeSkills sk) \<le> 100)
   \<and> (0 \<le> en_score (analyzeEngagement pd) \<and> en_score (analyzeEngagement pd) \<le> 100)
   \<and> performATSAnalysis [] =
       \<lparr>res_keywords = \<lparr>kw_found = [], kw_missing = take 10 commonTechKeywords, kw_score = 0\<rparr>,
        res_formatting = \<lparr>hasProperSections = False, hasContactInfo = False,
                          hasSkillsSection = False, hasExperienceSection = False, fmt_score = 0\<rparr>,
        res_content = \<lparr>hasQuantifiableAchievements = False, hasRelevantExperience = False,
                        hasEducationSection = False, wordCount = 1, content_score = 0\<rparr>,
        res_technical = \<lparr>programmingLanguages = [], frameworks = [], tools = [], databases = [],
                          tech_score = 0\<rparr>\<rparr>
   \<and> performLinkedInAnalysis empty_profile =
       \<lparr>res_headline = \<lparr>hl_hasKeywords = False, isCompelling = False, hl_length = 0,
                         hl_score = 0\<rparr>,
        res_summary = \<lparr>hasCallToAction = False, sm_hasKeywords = False, hasAchievements = False,
                        sm_length = 0, sm_score = 0\<rparr>,
        res_experience = \<lparr>hasQuantifiableResults = False, hasRelevantKeywords = False,
                           isWellStructured = False, ex_count = 0, ex_score = 0\<rparr>,
        res_skills = \<lparr>hasRelevantSkills = False, hasTechnicalSkills = False, sk_count = 0,
                       sk_score = 0\<rparr>,
        res_engagement = \<lparr>hasRecentActivity = True, hasRecommendations = True,
                           connectionCount = 0, en_score = 60\<rparr>\<rparr>
   \<and> kw_score (res_keywords (performATSAnalysis [])) \<le> kw_score (analyzeKeywords text)
   \<and> fmt_score (res_formatting (performATSAnalysis [])) \<le> fmt_score (analyzeFormatting text)
   \<and> content_score (res_content (performATSAnalysis [])) \<le> content_score (analyzeContent text)
   \<and> tech_score (res_technical (performATSAnalysis []))
        \<le> tech_score (analyzeTechnicalSkills text)
   \<and> hl_score (res_headline (performLinkedInAnalysis empty_profile)) \<le> hl_score (analyzeHeadline h)
   \<and> sm_score (res_summary (performLinkedInAnalysis empty_profile)) \<le> sm_score (analyzeSummary s)
   \<and> ex_score (res_experience (performLinkedInAnalysis empty_profile))
        \<le> ex_score (analyzeExperience ex)
   \<and> sk_score (res_skills (performLinkedInAnalysis empty_profile)) \<le> sk_score (analyzeSkills sk)
   \<and> en_score (res_engagement (performLinkedInAnalysis empty_profile))
        \<le> en_score (analyzeEngagement pd)"
proof -
  have "0 \<le> en_score (analyzeEngagement pd) \<and> en_score (analyzeEngagement pd) \<le> 100"
    using analyzeEngagement_range [of pd] by simp
  then show ?thesis
    using analyzeKeywords_range [of "text"] analyzeFormatting_range [of "text"]
      analyzeContent_range [of "text"] analyzeTechnicalSkills_range [of "text"]
      analyzeHeadline_range [of h] analyzeSummary_range [of s] analyzeExperience_range [of ex]
      analyzeSkills_range [of sk] performATSAnalysis_empty performLinkedInAnalysis_empty
      empty_is_lowest_cv [of "text"] empty_is_lowest_li [of h s ex sk pd]
    by blast
qed

theorem scorers_in_range_witness:
  "kw_score (analyzeKeywords rich_text) = 20 \<and> fmt_score (analyzeFormatting rich_text) = 0
   \<and> content_score (analyzeContent rich_text) = 0
   \<and> tech_score (analyzeTechnicalSkills rich_text) = 40
   \<and> hl_score (analyzeHeadline ''Software Developer at Tech Company'') = 70
   \<and> sk_score (analyzeSkills [''JavaScript'', ''React'', ''Node.js'', ''HTML'', ''CSS'']) = 70
   \<and> en_score (analyzeEngagement mock_profile) = 80
   \<and> kw_score (res_keywords (performATSAnalysis [])) \<le> kw_score (analyzeKeywords rich_text)
   \<and> en_score (res_engagement (performLinkedInAnalysis empty_profile))
        \<le> en_score (analyzeEngagement mock_profile)"
proof -
  have cv: "kw_score (analyzeKeywords rich_text) = 20 \<and> fmt_score (analyzeFormatting rich_text) = 0
      \<and> content_score (analyzeContent rich_text) = 0
      \<and> tech_score (analyzeTechnicalSkills rich_text) = 40"
    using rich_analysis_val by (simp add: performATSAnalysis_def)
  have li: "hl_score (analyzeHeadline ''Software Developer at Tech Company'') = 70
      \<and> sk_score (analyzeSkills [''JavaScript'', ''React'', ''Node.js'', ''HTML'', ''CSS'']) = 70
      \<and> en_score (analyzeEngagement mock_profile) = 80"
    using mock_analysis_val
    by (simp add: performLinkedInAnalysis_def mock_profile_def str_or_empty_def)
  show ?thesis
    using scorers_in_range [of rich_text "''Software Developer at Tech Company''" "[]" "[]"
        "[''JavaScript'', ''React'', ''Node.js'', ''HTML'', ''CSS'']" mock_profile] cv li
    by simp
qed

text \<open>
  C9. The engagement scorer returns at least 60 for every profile, the profile with
  every field absent and no connections included: the facts \<open>hasRecentActivity\<close> and
  \<open>hasRecommendations\<close> are constants of the source, each worth 30 points. No profile has
  an engagement sub-score of 0.
\<close>

theorem engagement_at_least_60:
  "60 \<le> en_score (analyzeEngagement pd)
   \<and> en_score (analyzeEngagement pd) \<noteq> 0
   \<and> hasRecentActivity (analyzeEngagement pd)
   \<and> hasRecommendations (analyzeEngagement pd)
   \<and> en_score (analyzeEngagement empty_profile) = 60
   \<and> en_score (analyzeEngagement (empty_profile\<lparr>connections := Some 0\<rparr>)) = 60"
proof -
  have facts: "hasRecentActivity (analyzeEngagement pd) \<and> hasRecommendations (analyzeEngagement pd)"
    unfolding analyzeEngagement_def Let_def engagement_facts.select_convs by simp
  have e1: "en_score (analyzeEngagement empty_profile) = 60"
    unfolding analyzeEngagement_score by (simp add: empty_profile_def)
  have e2: "en_score (analyzeEngagement (empty_profile\<lparr>connections := Some 0\<rparr>)) = 60"
    unfolding analyzeEngagement_score by (simp add: empty_profile_def)
  have "60 \<le> en_score (analyzeEngagement pd)" using analyzeEngagement_range [of pd] by simp
  then show ?thesis using facts e1 e2 by simp
qed

theorem engagement_at_least_60_witness:
  "60 \<le> en_score (analyzeEngagement mock_profile)
   \<and> en_score (analyzeEngagement mock_profile) = 80
   \<and> en_score (analyzeEngagement empty_profile) = 60"
proof -
  have "en_score (analyzeEngagement mock_profile) = 80"
    unfolding analyzeEngagement_score by (simp add: mock_profile_def)
  then show ?thesis using engagement_at_least_60 [of mock_profile] by simp
qed

section \<open>The concrete scenario, step by step\<close>

lemma pro_users_val:
  "pro_users =
     [\<lparr>email = ''a@b.com'', plan = ''pro'', planStatus = ''active'',
       subscriptionId = Some ''sub_1'', customerId = Some ''cus_1'', planExpiresAt = Some 5000,
       usage = \<lparr>cvScans = 0, linkedinScans = 0, monthlyResetDate = 0\<rparr>\<rparr>]"
  by (simp add: pro_users_def sample_user_def)

lemma rich_state_val:
  "rich_state =
     \<lparr>users = [\<lparr>email = ''a@b.com'', plan = ''pro'', planStatus = ''active'',
                 subscriptionId = Some ''sub_1'', customerId = Some ''cus_1'',
                 planExpiresAt = Some 5000,
                 usage = \<lparr>cvScans = 1, linkedinScans = 0, monthlyResetDate = 0\<rparr>\<rparr>],
      cvAnalyses =
        [\<lparr>userId = 0, originalFileName = ''cv.pdf'', fileType = ''pdf'',
          extractedText = rich_text, atsScore = 13,
          analysis = stored_analysis (performATSAnalysis rich_text),
          suggestions =
            [\<lparr>category = ''keywords'', priority = ''high'', title = ''Add Missing Keywords'',
              description = ''Include these important keywords: javascript, node.js, angular, vue, typescript'',
              impact = 15\<rparr>,
             \<lparr>category = ''formatting'', priority = ''high'', title = ''Improve CV Structure'',
              description = ''Add clear sections: Contact Info, Summary, Experience, Skills, Education'',
              impact = 12\<rparr>,
             \<lparr>category = ''content'', priority = ''medium'',
              title = ''Add Quantifiable Achievements'',
              description = ''Include numbers, percentages, and measurable results in your experience'',
              impact = 10\<rparr>,
             \<lparr>category = ''technical'', priority = ''medium'',
              title = ''Expand Technical Skills'',
              description = ''Add more relevant programming languages and frameworks'',
              impact = 8\<rparr>],
          optimizedVersion = None, comparisonData = None, status = ''completed'',
          processingTime = 7, locked = False\<rparr>],
      outbox = []\<rparr>"
proof -
  have gate: "requirePlan [''one-time'', ''basic'', ''pro''] 1000 (pro_users ! 0) = None"
    by (simp add: pro_users_val requirePlan_def plan_expired_def)
  have can: "canPerformAction 1000 (pro_users ! 0) ''cv_scan''"
    by (simp add: pro_users_val canPerformAction_def plan_expired_def)
  have save: "User_save 0 (count_cv_scan (pro_users ! 0)) pro_users
      = Inr [\<lparr>email = ''a@b.com'', plan = ''pro'', planStatus = ''active'',
              subscriptionId = Some ''sub_1'', customerId = Some ''cus_1'',
              planExpiresAt = Some 5000,
              usage = \<lparr>cvScans = 1, linkedinScans = 0, monthlyResetDate = 0\<rparr>\<rparr>]"
    by (simp add: pro_users_val User_save_def valid_user_def plan_enum_def
        planStatus_enum_def count_cv_scan_def)
  have p: "plan (pro_users ! 0) = ''pro''"
    by (simp add: pro_users_val)
  have len: "length pro_users = 1"
    by (simp add: pro_users_val)
  have score: "fst (calculateATSScore d) = 13"
    if "analysis d = stored_analysis (performATSAnalysis rich_text)" for d
    using that
    by (simp add: calculateATSScore_def cv_scores_def stored_analysis_def score_or0_def
        rich_analysis_val rounded_values)
  have sugg: "fst (generateSuggestions d)
      = [\<lparr>category = ''keywords'', priority = ''high'', title = ''Add Missing Keywords'',
          description = ''Include these important keywords: javascript, node.js, angular, vue, typescript'',
          impact = 15\<rparr>,
         \<lparr>category = ''formatting'', priority = ''high'', title = ''Improve CV Structure'',
          description = ''Add clear sections: Contact Info, Summary, Experience, Skills, Education'',
          impact = 12\<rparr>,
         \<lparr>category = ''content'', priority = ''medium'',
          title = ''Add Quantifiable Achievements'',
          description = ''Include numbers, percentages, and measurable results in your experience'',
          impact = 10\<rparr>,
         \<lparr>category = ''technical'', priority = ''medium'',
          title = ''Expand Technical Skills'',
          description = ''Add more relevant programming languages and frameworks'',
          impact = 8\<rparr>]"
    if "analysis d = stored_analysis (performATSAnalysis rich_text)" for d
    using that
    by (simp add: generateSuggestions_def Let_def rich_analysis_val stored_analysis_def)
  have snd_sugg: "snd (generateSuggestions d) = d\<lparr>suggestions := fst (generateSuggestions d)\<rparr>" for d
    by (simp add: generateSuggestions_def Let_def)
  show ?thesis
    unfolding rich_state_def cv_analyze_def
    by (simp add: len gate can save p rich_upload_def rich_text_not_blank calculateATSScore_sets
        score snd_sugg sugg new_cv_doc_def Let_def del: One_nat_def)
qed

section \<open>The billing event handlers\<close>

lemma find_index_Some:
  "find_index P xs = Some i \<Longrightarrow> i < length xs \<and> P (xs ! i)"
proof (induction xs arbitrary: i)
  case Nil
  then show ?case by simp
next
  case (Cons x xs)
  show ?case
  proof (cases "P x")
    case True
    with Cons.prems show ?thesis by simp
  next
    case False
    with Cons.prems obtain j where j: "find_index P xs = Some j" "i = Suc j" by auto
    with Cons.IH [OF j(1)] show ?thesis by simp
  qed
qed

lemma past_due_not_in_enum: "''past_due'' \<notin> set planStatus_enum"
  by (simp add: planStatus_enum_def)

lemma handleSubscriptionExpired_found:
  assumes "find_index (\<lambda>u. subscriptionId u = Some (ev_id data)) db = Some i"
  shows "handleSubscriptionExpired data db
           = db[i := (db ! i)\<lparr>plan := ''free'', planStatus := ''expired''\<rparr>]"
  using assms
  by (simp add: handleSubscriptionExpired_def User_save_def valid_user_def plan_enum_def
      planStatus_enum_def)

lemma free_plan_no_scan:
  "plan u = ''free'' \<Longrightarrow>
     \<not> canPerformAction now u ''cv_scan'' \<and> \<not> canPerformAction now u ''linkedin_scan''"
  by (simp add: canPerformAction_def)

text \<open>
  C6. A subscription-expired event whose subscription id resolves to a user, whatever
  that user's plan was, leaves the user stored with plan free and status expired, and
  on that state the gate denies \<open>cv_scan\<close> and \<open>linkedin_scan\<close> at every time.
\<close>

theorem subscription_expired_denies_scans:
  assumes "find_index (\<lambda>u. subscriptionId u = Some (ev_id data)) db = Some i"
  shows "length (handleSubscriptionExpired data db) = length db
       \<and> plan (handleSubscriptionExpired data db ! i) = ''free''
       \<and> planStatus (handleSubscriptionExpired data db ! i) = ''expired''
       \<and> (\<forall>now. \<not> canPerformAction now (handleSubscriptionExpired data db ! i) ''cv_scan''
              \<and> \<not> canPerformAction now (handleSubscriptionExpired data db ! i) ''linkedin_scan'')"
proof -
  have i: "i < length db" using find_index_Some [OF assms] by simp
  have eq: "handleSubscriptionExpired data db ! i
              = (db ! i)\<lparr>plan := ''free'', planStatus := ''expired''\<rparr>"
    using i by (simp add: handleSubscriptionExpired_found [OF assms])
  have p: "plan (handleSubscriptionExpired data db ! i) = ''free''"
    by (simp add: eq)
  show ?thesis
    using free_plan_no_scan [OF p] p
    by (simp add: eq) (simp add: handleSubscriptionExpired_found [OF assms])
qed

theorem subscription_expired_denies_scans_witness:
  "find_index (\<lambda>u. subscriptionId u = Some (ev_id sample_event))
       [sample_user ''pro'' 3 9 None] = Some 0
   \<and> plan (handleSubscriptionExpired sample_event [sample_user ''pro'' 3 9 None] ! 0) = ''free''
   \<and> planStatus (handleSubscriptionExpired sample_event [sample_user ''pro'' 3 9 None] ! 0)
        = ''expired''
   \<and> \<not> canPerformAction 1000
         (handleSubscriptionExpired sample_event [sample_user ''pro'' 3 9 None] ! 0) ''cv_scan''
   \<and> \<not> canPerformAction 1000
         (handleSubscriptionExpired sample_event [sample_user ''pro'' 3 9 None] ! 0)
         ''linkedin_scan''"
proof -
  have h: "find_index (\<lambda>u. subscriptionId u = Some (ev_id sample_event))
             [sample_user ''pro'' 3 9 None] = Some 0"
    by (simp add: sample_user_def sample_event_def)
  show ?thesis
    using h subscription_expired_denies_scans [OF h] by blast
qed

text \<open>
  C7. The handler of a failed payment assigns \<open>past_due\<close> to \<open>planStatus\<close> and saves, but
  \<open>past_due\<close> is not among the values the user schema allows for \<open>planStatus\<close>, so the save
  is rejected and the stored user never changes: for a user with an active basic plan
  the status stays \<open>active\<close>.
\<close>

theorem payment_failed_not_persisted:
  "''past_due'' \<notin> set planStatus_enum
   \<and> find_index (\<lambda>u. subscriptionId u = Some (ev_subscription_id sample_event))
        [sample_user ''basic'' 2 0 None] = Some 0
   \<and> handleSubscriptionPaymentFailed sample_event [sample_user ''basic'' 2 0 None]
        = [sample_user ''basic'' 2 0 None]
   \<and> planStatus (handleSubscriptionPaymentFailed sample_event [sample_user ''basic'' 2 0 None] ! 0)
        = ''active''"
  by (simp add: handleSubscriptionPaymentFailed_def User_save_def valid_user_def
      planStatus_enum_def sample_user_def sample_event_def)

lemma handleSubscriptionPaymentFailed_unchanged:
  "handleSubscriptionPaymentFailed data db = db"
  by (simp add: handleSubscriptionPaymentFailed_def User_save_def valid_user_def
      planStatus_enum_def Let_def split: option.splits)




section \<open>The compare routes\<close>

















section \<open>What a user on the free plan is answered\<close>

lemma cv_analyze_free:
  assumes "uidx < length (users st)" and "plan (users st ! uidx) = ''free''"
  shows "cv_analyze now ptime uidx file st = (Inl Forbidden_plan, st)"
  using assms by (simp add: cv_analyze_def requirePlan_def Let_def)

lemma truncate_for_free_bounds:
  "length (suggestions (truncate_for_free a)) \<le> 2
   \<and> suggestions (truncate_for_free a) = take 2 (suggestions a)
   \<and> (\<forall>k. an_keywords (analysis (truncate_for_free a)) = Some k
          \<longrightarrow> length (kw_found k) \<le> 3 \<and> length (kw_missing k) \<le> 3)
   \<and> map_option kw_found (an_keywords (analysis (truncate_for_free a)))
        = map_option (take 3 \<circ> kw_found) (an_keywords (analysis a))
   \<and> map_option kw_missing (an_keywords (analysis (truncate_for_free a)))
        = map_option (take 3 \<circ> kw_missing) (an_keywords (analysis a))
   \<and> atsScore (truncate_for_free a) = atsScore a"
  by (cases "an_keywords (analysis a)") (auto simp: truncate_for_free_def)

lemma cv_get_analysis_free:
  assumes "uidx < length (users st)" and "plan (users st ! uidx) = ''free''"
    and "ident < length (cvAnalyses st)" and "userId (cvAnalyses st ! ident) = uidx"
  shows "cv_get_analysis uidx ident st
           = (Inr (toJSON (truncate_for_free (cvAnalyses st ! ident))), st)"
  using assms by (simp add: cv_get_analysis_def Let_def)

lemma toJSON_paths:
  "suggestions (toJSON d) = suggestions d \<and> analysis (toJSON d) = analysis d
   \<and> atsScore (toJSON d) = atsScore d"
  by (simp add: toJSON_def)

text \<open>
  C10 (as amended). A request of a user on the free plan to the analyze route is refused
  by the plan gate with status 403: nothing is analysed, persisted or returned. The
  get-analysis route answers such a user with the stored analysis cut, in the answer
  only, to at most 2 suggestions, 3 found and 3 missing keywords; the persisted record
  stays as it was.
\<close>

theorem free_plan_answers:
  assumes "uidx < length (users st)" and "plan (users st ! uidx) = ''free''"
  shows "cv_analyze now ptime uidx file st = (Inl Forbidden_plan, st)
     \<and> (ident < length (cvAnalyses st) \<and> userId (cvAnalyses st ! ident) = uidx \<longrightarrow>
          (\<exists>a. cv_get_analysis uidx ident st = (Inr a, st)
             \<and> length (suggestions a) \<le> 2
             \<and> suggestions a = take 2 (suggestions (cvAnalyses st ! ident))
             \<and> (\<forall>k. an_keywords (analysis a) = Some k
                    \<longrightarrow> length (kw_found k) \<le> 3 \<and> length (kw_missing k) \<le> 3)
             \<and> map_option kw_found (an_keywords (analysis a))
                  = map_option (take 3 \<circ> kw_found) (an_keywords (analysis (cvAnalyses st ! ident)))
             \<and> map_option kw_missing (an_keywords (analysis a))
                  = map_option (take 3 \<circ> kw_missing) (an_keywords (analysis (cvAnalyses st ! ident)))
             \<and> atsScore a = atsScore (cvAnalyses st ! ident)))"
  using cv_analyze_free [OF assms] cv_get_analysis_free [OF assms]
    truncate_for_free_bounds [of "cvAnalyses st ! ident"]
    toJSON_paths [of "truncate_for_free (cvAnalyses st ! ident)"]
  by auto

lemma lapsed_state_val:
  "users lapsed_state =
     [\<lparr>email = ''a@b.com'', plan = ''free'', planStatus = ''expired'',
       subscriptionId = Some ''sub_1'', customerId = Some ''cus_1'', planExpiresAt = Some 5000,
       usage = \<lparr>cvScans = 1, linkedinScans = 0, monthlyResetDate = 0\<rparr>\<rparr>]
   \<and> cvAnalyses lapsed_state = cvAnalyses rich_state"
  by (simp add: lapsed_state_def rich_state_val handleSubscriptionExpired_def sample_event_def
      User_save_def valid_user_def plan_enum_def planStatus_enum_def)

lemma lapsed_state_facts:
  "length (users lapsed_state) = 1 \<and> plan (users lapsed_state ! 0) = ''free''
   \<and> length (cvAnalyses lapsed_state) = 1 \<and> userId (cvAnalyses lapsed_state ! 0) = 0
   \<and> length (suggestions (cvAnalyses lapsed_state ! 0)) = 4
   \<and> map_option kw_found (an_keywords (analysis (cvAnalyses lapsed_state ! 0)))
        = Some [''python'', ''java'', ''react'', ''docker'']"
  by (simp add: lapsed_state_val rich_state_val rich_analysis_val stored_analysis_def)

lemma lapsed_get_val:
  "map_sum id (\<lambda>a. (length (suggestions a), map_option kw_found (an_keywords (analysis a)),
                      map_option kw_missing (an_keywords (analysis a))))
      (fst (cv_get_analysis 0 0 lapsed_state))
     = Inr (2, Some [''python'', ''java'', ''react''],
               Some [''javascript'', ''node.js'', ''angular''])"
  by (simp add: cv_get_analysis_def lapsed_state_val rich_state_val truncate_for_free_def
      toJSON_def rich_analysis_val stored_analysis_def Let_def)

theorem free_plan_answers_witness:
  "plan (users lapsed_state ! 0) = ''free''
   \<and> length (suggestions (cvAnalyses lapsed_state ! 0)) = 4
   \<and> fst (cv_analyze 2000 7 0 (Some rich_upload) lapsed_state) = Inl Forbidden_plan
   \<and> snd (cv_get_analysis 0 0 lapsed_state) = lapsed_state
   \<and> map_sum id (\<lambda>a. (length (suggestions a), map_option kw_found (an_keywords (analysis a)),
                        map_option kw_missing (an_keywords (analysis a))))
        (fst (cv_get_analysis 0 0 lapsed_state))
       = Inr (2, Some [''python'', ''java'', ''react''],
                 Some [''javascript'', ''node.js'', ''angular''])"
proof -
  have a: "0 < length (users lapsed_state)" and b: "plan (users lapsed_state ! 0) = ''free''"
    using lapsed_state_facts by simp_all
  have c: "0 < length (cvAnalyses lapsed_state) \<and> userId (cvAnalyses lapsed_state ! 0) = 0"
    using lapsed_state_facts by simp
  from free_plan_answers [OF a b, of 2000 7 "Some rich_upload" 0] c
  have "fst (cv_analyze 2000 7 0 (Some rich_upload) lapsed_state) = Inl Forbidden_plan"
    and "snd (cv_get_analysis 0 0 lapsed_state) = lapsed_state"
    by auto
  then show ?thesis using b lapsed_state_facts lapsed_get_val by simp
qed

text \<open>
  A user on the free plan uploads a r\'esum\'e to the analyze route: the answer is the
  refusal of the plan gate, and the collections are as before. No analysis, truncated or
  not, is returned, and none is persisted.
\<close>

theorem free_analyze_counterexample:
  "cv_analyze 1000 7 0 (Some rich_upload)
       \<lparr>users = [sample_user ''free'' 0 0 None], cvAnalyses = [], outbox = []\<rparr>
     = (Inl Forbidden_plan,
        \<lparr>users = [sample_user ''free'' 0 0 None], cvAnalyses = [], outbox = []\<rparr>)"
  by (simp add: cv_analyze_def requirePlan_def sample_user_def Let_def)

section \<open>The plan gate: theorems\<close>

text \<open>
  C2. For a user whose plan has not expired, the gate on a scan action (\<open>cv_scan\<close> or
  \<open>linkedin_scan\<close>) denies on plan free, allows exactly when the corresponding counter is
  below 1 on plan one-time, allows exactly when it is below 5 on plan basic, and always
  allows on plan pro, whatever the counter.
\<close>

theorem canPerformAction_scan_gate:
  assumes "\<not> plan_expired now u"
    and "action = ''cv_scan'' \<or> action = ''linkedin_scan''"
  shows "(plan u = ''free'' \<longrightarrow> canPerformAction now u action = False)
       \<and> (plan u = ''one-time'' \<longrightarrow> canPerformAction now u action = (scan_counter u action < 1))
       \<and> (plan u = ''basic'' \<longrightarrow> canPerformAction now u action = (scan_counter u action < 5))
       \<and> (plan u = ''pro'' \<longrightarrow> canPerformAction now u action = True)"
  using assms by (auto simp: canPerformAction_def scan_counter_def)

theorem canPerformAction_scan_gate_witness:
  "\<not> plan_expired 1000 (sample_user ''basic'' 4 5 (Some 2000))
   \<and> canPerformAction 1000 (sample_user ''basic'' 4 5 (Some 2000)) ''cv_scan'' = True
   \<and> canPerformAction 1000 (sample_user ''basic'' 4 5 (Some 2000)) ''linkedin_scan'' = False
   \<and> canPerformAction 1000 (sample_user ''one-time'' 0 1 None) ''cv_scan'' = True
   \<and> canPerformAction 1000 (sample_user ''one-time'' 0 1 None) ''linkedin_scan'' = False
   \<and> canPerformAction 1000 (sample_user ''pro'' 1000000 7 None) ''cv_scan'' = True
   \<and> canPerformAction 1000 (sample_user ''free'' 0 0 None) ''cv_scan'' = False"
proof -
  have e1: "\<not> plan_expired 1000 (sample_user ''basic'' 4 5 (Some 2000))"
    by (simp add: plan_expired_def sample_user_def)
  have e2: "\<not> plan_expired 1000 (sample_user p c l None)" for p c l
    by (simp add: plan_expired_def sample_user_def)
  note b1 = canPerformAction_scan_gate [OF e1, of "''cv_scan''"]
  note b2 = canPerformAction_scan_gate [OF e1, of "''linkedin_scan''"]
  note o1 = canPerformAction_scan_gate [OF e2, of "''cv_scan''" "''one-time''" 0 1]
  note o2 = canPerformAction_scan_gate [OF e2, of "''linkedin_scan''" "''one-time''" 0 1]
  note p1 = canPerformAction_scan_gate [OF e2, of "''cv_scan''" "''pro''" 1000000 7]
  note f1 = canPerformAction_scan_gate [OF e2, of "''cv_scan''" "''free''" 0 0]
  show ?thesis
    using e1 b1 b2 o1 o2 p1 f1 by (simp add: sample_user_def scan_counter_def)
qed

text \<open>
  C4. When \<open>planExpiresAt\<close> is set and lies before the current time, the gate denies every
  action, whatever the plan and the counters.
\<close>

theorem canPerformAction_expired:
  assumes "planExpiresAt u = Some t" and "t < now"
  shows "canPerformAction now u action = False"
  using assms by (simp add: canPerformAction_def plan_expired_def)

theorem canPerformAction_expired_witness:
  "planExpiresAt (sample_user ''pro'' 0 0 (Some 500)) = Some 500 \<and> (500::int) < 1000
   \<and> canPerformAction 1000 (sample_user ''pro'' 0 0 (Some 500)) ''cv_scan'' = False
   \<and> canPerformAction 1000 (sample_user ''pro'' 0 0 (Some 500)) ''pdf_export'' = False"
proof -
  have h: "planExpiresAt (sample_user ''pro'' 0 0 (Some 500)) = Some 500"
    by (simp add: sample_user_def)
  have l: "(500::int) < 1000" by simp
  show ?thesis
    using h canPerformAction_expired [OF h l, of "''cv_scan''"]
      canPerformAction_expired [OF h l, of "''pdf_export''"] by simp
qed

end
